theory Spec2Isabelle
  imports Complex_Main "HOL-Library.Sublist"
begin

section \<open>Restaurant point-of-sale server: shallow embedding\<close>

text \<open>
  The server (\<^verbatim>\<open>src/unnamed/part_000\<close>) is a set of HTTP route handlers over a
  key-value store. Every handler is modelled as a function from the store (and the
  request fields) to a response and the store afterwards. What a handler reads from its
  environment (\<^verbatim>\<open>crypto.randomUUID()\<close>, \<^verbatim>\<open>Date.now()\<close>, today's date string) is a
  parameter of the model.

  Conventions of the model:
  \<^item> JavaScript numbers that carry amounts (prices, quantities, totals) are IEEE
    doubles. An amount of a request is finite, the \<open>real\<close> that the double denotes. The
    arithmetic of the handlers on amounts is \<open>js_add\<close>, \<open>js_sub\<close> and \<open>js_mul\<close> below:
    the exact result rounded to the nearest double, ties to even, and an infinity when
    that leaves the range. What the arithmetic produces and the store keeps (a sales
    total, a stock quantity) is a \<open>js_number\<close>: a finite double, an infinity or
    \<^verbatim>\<open>NaN\<close>. The sign of zero, which no handler can observe, is not kept. Numbers that
    are indices, counters or table numbers are \<open>int\<close> or \<open>nat\<close>; they stay far below
    \<open>2 ^ 53\<close>, where doubles count exactly.
  \<^item> Request fields have the types the front end declares for them (strings, numbers,
    lists of line items); a string is falsy exactly when it is empty.
  \<^item> Every key the server builds starts with one of six literal prefixes
    (\<^verbatim>\<open>restaurant:\<close>, \<^verbatim>\<open>table:\<close>, \<^verbatim>\<open>order:\<close>, \<^verbatim>\<open>product:\<close>, \<^verbatim>\<open>inventory:\<close>,
    \<^verbatim>\<open>sales:\<close>), none a prefix of another, and the values written under one prefix all
    have one shape. The store is therefore a record of six maps, one per prefix, each
    from the full key string to the value shape written under that prefix.
  \<^item> A handler's \<^verbatim>\<open>catch\<close> block (HTTP 500) is the error \<open>InternalError\<close>; the
    writes made before the exception stay in the returned store.
\<close>

subsection \<open>JavaScript numbers\<close>

text \<open>
  The nearest integer, ties to the even one: how IEEE 754 rounds a scaled significand
  in the default mode, the only one JavaScript has.
\<close>

definition half_even :: "real \<Rightarrow> int" where
  "half_even r =
     (let f = \<lfloor>r\<rfloor>; d = r - of_int f
      in if d < 1 / 2 then f
         else if 1 / 2 < d then f + 1
         else if even f then f else f + 1)"

text \<open>
  A double has a significand of 53 bits. A positive number of at least \<open>2 ^ 53\<close> is
  halved until it is below \<open>2 ^ 53\<close>, rounded to an integer there, and scaled back.
\<close>

function scale_hi :: "real \<Rightarrow> real" where
  "scale_hi x = (if 2 ^ 53 \<le> x then 2 * scale_hi (x / 2) else of_int (half_even x))"
  by pat_completeness auto
termination
proof (relation "measure (\<lambda>x. nat \<lfloor>x\<rfloor>)")
  show "wf (measure (\<lambda>x. nat \<lfloor>x\<rfloor>))" by simp
next
  fix x :: real
  assume big: "2 ^ 53 \<le> x"
  then have "x / 2 \<le> x - 1" by simp
  then have "\<lfloor>x / 2\<rfloor> \<le> \<lfloor>x - 1\<rfloor>" by (rule floor_mono)
  then have a: "\<lfloor>x / 2\<rfloor> < \<lfloor>x\<rfloor>" by simp
  from big have "1 \<le> x" by simp
  then have "\<lfloor>1::real\<rfloor> \<le> \<lfloor>x\<rfloor>" by (rule floor_mono)
  then have b: "0 < \<lfloor>x\<rfloor>" by simp
  from a b have "nat \<lfloor>x / 2\<rfloor> < nat \<lfloor>x\<rfloor>" by (simp only: zless_nat_conj)
  then show "(x / 2, x) \<in> measure (\<lambda>x. nat \<lfloor>x\<rfloor>)" by (simp only: in_measure)
qed

text \<open>
  A positive number below \<open>2 ^ 52\<close> is doubled until it reaches \<open>2 ^ 52\<close>, at most 1074
  times: the spacing of the doubles never falls below \<open>2 ^ -1074\<close>, that of the
  subnormal numbers. \<open>e\<close> is the binary exponent of the current spacing.
\<close>

function scale_lo :: "real \<Rightarrow> int \<Rightarrow> real" where
  "scale_lo x e =
     (if x < 2 ^ 52 \<and> - 1074 < e then scale_lo (2 * x) (e - 1) / 2
      else of_int (half_even x))"
  by pat_completeness auto
termination
  by (relation "measure (\<lambda>(x, e). nat (e + 1074))") auto

declare scale_hi.simps [simp del]
declare scale_lo.simps [simp del]

definition round_pos :: "real \<Rightarrow> real" where
  "round_pos x = (if 2 ^ 53 \<le> x then scale_hi x else scale_lo x 0)"

text \<open>
  The double nearest to a real, ties to even. It is also what a decimal literal of the
  source or of a request denotes: \<^verbatim>\<open>1.1\<close> is \<open>js_round 1.1\<close>.
\<close>

definition js_round :: "real \<Rightarrow> real" where
  "js_round x = (if x = 0 then 0 else if x < 0 then - round_pos (- x) else round_pos x)"

text \<open>The reals that are doubles: rounding leaves them as they are, and they are in range.\<close>

definition is_double :: "real \<Rightarrow> bool" where
  "is_double x \<longleftrightarrow> js_round x = x \<and> \<bar>x\<bar> < 2 ^ 1024"

text \<open>A JavaScript number: a finite double, \<^verbatim>\<open>Infinity\<close>, \<^verbatim>\<open>-Infinity\<close> or \<^verbatim>\<open>NaN\<close>.\<close>

datatype js_number = Finite real | PosInfinity | NegInfinity | NaN

text \<open>
  The double for an exact result: the nearest double, and an infinity when the rounded
  magnitude reaches \<open>2 ^ 1024\<close> (overflow).
\<close>

definition js_finite :: "real \<Rightarrow> js_number" where
  "js_finite x =
     (let r = js_round x
      in if 2 ^ 1024 \<le> r then PosInfinity
         else if r \<le> - (2 ^ 1024) then NegInfinity
         else Finite r)"

text \<open>The operator \<^verbatim>\<open>*\<close> on two finite numbers.\<close>

definition js_mul :: "real \<Rightarrow> real \<Rightarrow> js_number" where
  "js_mul a b = js_finite (a * b)"

text \<open>
  The operator \<^verbatim>\<open>+\<close> on numbers: \<^verbatim>\<open>NaN\<close> is contagious, the two infinities add up to
  \<^verbatim>\<open>NaN\<close>, an infinity absorbs everything else.
\<close>

fun js_add :: "js_number \<Rightarrow> js_number \<Rightarrow> js_number" where
  "js_add NaN y = NaN"
| "js_add x NaN = NaN"
| "js_add PosInfinity NegInfinity = NaN"
| "js_add NegInfinity PosInfinity = NaN"
| "js_add PosInfinity y = PosInfinity"
| "js_add x PosInfinity = PosInfinity"
| "js_add NegInfinity y = NegInfinity"
| "js_add x NegInfinity = NegInfinity"
| "js_add (Finite a) (Finite b) = js_finite (a + b)"

fun js_neg :: "js_number \<Rightarrow> js_number" where
  "js_neg (Finite a) = Finite (- a)"
| "js_neg PosInfinity = NegInfinity"
| "js_neg NegInfinity = PosInfinity"
| "js_neg NaN = NaN"

text \<open>The operator \<^verbatim>\<open>-\<close> on numbers: the sum with the negated number.\<close>

definition js_sub :: "js_number \<Rightarrow> js_number \<Rightarrow> js_number" where
  "js_sub x y = js_add x (js_neg y)"

subsection \<open>Data model\<close>

text \<open>The restaurant object of \<^verbatim>\<open>POST /signup\<close> (lines 49-57).\<close>

record restaurant =
  r_id :: string
  r_email :: string
  r_password :: string
  r_name :: string
  r_paid :: bool
  r_managerPassword :: string
  r_createdAt :: int

text \<open>
  Under the prefix \<^verbatim>\<open>restaurant:\<close> the server stores restaurant objects
  (\<^verbatim>\<open>restaurant:${restaurantId}\<close>) and the email index (\<^verbatim>\<open>restaurant:email:${email}\<close>,
  whose value is the restaurant id, a string).
\<close>

datatype restaurant_entry = Restaurant restaurant | RestaurantId string

text \<open>\<^verbatim>\<open>{ number: i, orders: [] }\<close> (line 64).\<close>

record table_rec =
  t_number :: int
  t_orders :: "string list"

text \<open>A line item \<^verbatim>\<open>{productId, name, quantity, price, category}\<close> (line 169).\<close>

record line_item =
  li_productId :: string
  li_name :: string
  li_quantity :: real
  li_price :: real
  li_category :: string

text \<open>The order object of \<^verbatim>\<open>POST /orders\<close> (lines 165-172).\<close>

record order =
  o_id :: string
  o_restaurantId :: string
  o_tableNumber :: int
  o_items :: "line_item list"
  o_status :: string
  o_timestamp :: int

text \<open>An ingredient requirement \<^verbatim>\<open>{name, quantity, unit}\<close> (line 377).\<close>

record ingredient =
  ing_name :: string
  ing_quantity :: real
  ing_unit :: string

text \<open>
  The product object of \<^verbatim>\<open>POST /products\<close> (lines 372-378). Its \<^verbatim>\<open>ingredients\<close> field
  is always an array (\<^verbatim>\<open>ingredients || []\<close>).
\<close>

record product =
  p_id :: string
  p_name :: string
  p_price :: real
  p_category :: string
  p_ingredients :: "ingredient list"

text \<open>The inventory object \<^verbatim>\<open>{ ingredient, quantity, unit }\<close> (line 426).\<close>

record inventory_item =
  inv_ingredient :: string
  inv_quantity :: js_number
  inv_unit :: string

text \<open>The sales object \<^verbatim>\<open>{ date, total, count }\<close> (line 338).\<close>

record sales_rec =
  s_date :: string
  s_total :: js_number
  s_count :: nat

record store =
  restaurants :: "string \<rightharpoonup> restaurant_entry"
  tables :: "string \<rightharpoonup> table_rec"
  orders :: "string \<rightharpoonup> order"
  products :: "string \<rightharpoonup> product"
  inventory :: "string \<rightharpoonup> inventory_item"
  sales :: "string \<rightharpoonup> sales_rec"

text \<open>
  The errors of the handlers, named as the specification names them, with the HTTP
  status the handler answers: \<open>ValidationError\<close> 400 (missing fields),
  \<open>DuplicateEmail\<close> 400, \<open>PaymentRequired\<close> 402, \<open>InvalidCredentials\<close> 401 (login),
  \<open>Unauthorized\<close> 401 (manager password), \<open>NotFound\<close> 404, \<open>InternalError\<close> 500.
\<close>

datatype error =
    ValidationError
  | DuplicateEmail
  | PaymentRequired
  | InvalidCredentials
  | Unauthorized
  | NotFound
  | InternalError

subsection \<open>The key-value store module\<close>

text \<open>
  The module \<^verbatim>\<open>./kv_store.tsx\<close> that the server imports is not among the sources. The
  specification describes it as a mapping from string key to structured value with
  point get, set and delete and a prefix scan.
\<close>

text \<open>
  Modelled from the spec: \<^verbatim>\<open>kv.get\<close> of the absent module \<^verbatim>\<open>./kv_store.tsx\<close>, the point
  lookup; for a key that holds nothing it returns nothing.
\<close>

definition kv_get :: "(string \<rightharpoonup> 'v) \<Rightarrow> string \<Rightarrow> 'v option" where
  "kv_get m k = m k"

text \<open>
  Modelled from the spec: \<^verbatim>\<open>kv.set\<close> of the absent module \<^verbatim>\<open>./kv_store.tsx\<close>, which stores
  the value under the key and replaces what the key held.
\<close>

definition kv_set :: "(string \<rightharpoonup> 'v) \<Rightarrow> string \<Rightarrow> 'v \<Rightarrow> (string \<rightharpoonup> 'v)" where
  "kv_set m k v = m(k \<mapsto> v)"

text \<open>
  Modelled from the spec: \<^verbatim>\<open>kv.del\<close> of the absent module \<^verbatim>\<open>./kv_store.tsx\<close>; deleting a
  key that holds nothing is not an error.
\<close>

definition kv_del :: "(string \<rightharpoonup> 'v) \<Rightarrow> string \<Rightarrow> (string \<rightharpoonup> 'v)" where
  "kv_del m k = m(k := None)"

text \<open>
  Modelled from the spec: \<^verbatim>\<open>kv.getByPrefix\<close> of the absent module \<^verbatim>\<open>./kv_store.tsx\<close>, the
  prefix scan, which returns every record whose key starts with the prefix. The
  specification promises no order of the result, so it is the set of matching values.
\<close>

definition kv_getByPrefix :: "(string \<rightharpoonup> 'v) \<Rightarrow> string \<Rightarrow> 'v set" where
  "kv_getByPrefix m p = {v. \<exists>k. prefix p k \<and> m k = Some v}"

subsection \<open>Keys\<close>

text \<open>
  A template literal \<^verbatim>\<open>${n}\<close> of an integral number is its decimal numeral, with a
  minus sign when negative.
\<close>

definition digit_char :: "nat \<Rightarrow> char" where
  "digit_char d = ''0123456789'' ! d"

fun nat_to_string :: "nat \<Rightarrow> string" where
  "nat_to_string n =
     (if n < 10 then [digit_char n]
      else nat_to_string (n div 10) @ [digit_char (n mod 10)])"

declare nat_to_string.simps [simp del]

definition number_to_string :: "int \<Rightarrow> string" where
  "number_to_string i =
     (if i < 0 then ''-'' @ nat_to_string (nat (- i)) else nat_to_string (nat i))"

definition restaurant_key :: "string \<Rightarrow> string" where
  "restaurant_key restaurantId = ''restaurant:'' @ restaurantId"

definition email_key :: "string \<Rightarrow> string" where
  "email_key email = ''restaurant:email:'' @ email"

definition table_prefix :: "string \<Rightarrow> string" where
  "table_prefix restaurantId = ''table:'' @ restaurantId @ '':''"

definition table_key :: "string \<Rightarrow> int \<Rightarrow> string" where
  "table_key restaurantId tableNumber =
     ''table:'' @ restaurantId @ '':'' @ number_to_string tableNumber"

definition order_key :: "string \<Rightarrow> string \<Rightarrow> string" where
  "order_key restaurantId orderId = ''order:'' @ restaurantId @ '':'' @ orderId"

definition product_key :: "string \<Rightarrow> string \<Rightarrow> string" where
  "product_key restaurantId productId = ''product:'' @ restaurantId @ '':'' @ productId"

definition inventory_key :: "string \<Rightarrow> string \<Rightarrow> string" where
  "inventory_key restaurantId name = ''inventory:'' @ restaurantId @ '':'' @ name"

definition sales_key :: "string \<Rightarrow> string \<Rightarrow> string" where
  "sales_key restaurantId today = ''sales:'' @ restaurantId @ '':'' @ today"

text \<open>
  \<^verbatim>\<open>crypto.randomUUID()\<close> returns 36 characters: groups of 8, 4, 4, 4 and 12 lower-case
  hexadecimal digits, separated by hyphens.
\<close>

definition hex_digit :: "char \<Rightarrow> bool" where
  "hex_digit c \<longleftrightarrow> c \<in> set ''0123456789abcdef''"

definition is_uuid :: "string \<Rightarrow> bool" where
  "is_uuid u \<longleftrightarrow>
     length u = 36 \<and>
     list_all hex_digit (take 8 u) \<and> u ! 8 = CHR ''-'' \<and>
     list_all hex_digit (take 4 (drop 9 u)) \<and> u ! 13 = CHR ''-'' \<and>
     list_all hex_digit (take 4 (drop 14 u)) \<and> u ! 18 = CHR ''-'' \<and>
     list_all hex_digit (take 4 (drop 19 u)) \<and> u ! 23 = CHR ''-'' \<and>
     list_all hex_digit (take 12 (drop 24 u))"

subsection \<open>Restaurant registry\<close>

text \<open>
  Truthiness of what \<^verbatim>\<open>kv.get\<close> returns under the prefix \<^verbatim>\<open>restaurant:\<close>: nothing and the
  empty string are falsy, an object and a non-empty string are truthy.
\<close>

fun truthy_entry :: "restaurant_entry option \<Rightarrow> bool" where
  "truthy_entry None = False"
| "truthy_entry (Some (Restaurant r)) = True"
| "truthy_entry (Some (RestaurantId i)) = (i \<noteq> [])"

text \<open>The loop \<^verbatim>\<open>for (let i = 1; i <= 10; i++) kv.set(table key, { number: i, orders: [] })\<close>.\<close>

function init_tables :: "store \<Rightarrow> string \<Rightarrow> int \<Rightarrow> store" where
  "init_tables s restaurantId i =
     (if i \<le> 10
      then init_tables
             (s\<lparr>tables := kv_set (tables s) (table_key restaurantId i)
                              \<lparr>t_number = i, t_orders = []\<rparr>\<rparr>)
             restaurantId (i + 1)
      else s)"
  by pat_completeness auto
termination
  by (relation "measure (\<lambda>(s, r, i). nat (11 - i))") auto

declare init_tables.simps [simp del]

text \<open>
  \<^verbatim>\<open>POST /signup\<close> (lines 29-72). \<open>uuid\<close> is the result of \<^verbatim>\<open>crypto.randomUUID()\<close> and
  \<open>now\<close> that of \<^verbatim>\<open>Date.now()\<close>.
\<close>

definition signup ::
  "store \<Rightarrow> string \<Rightarrow> string \<Rightarrow> string \<Rightarrow> string \<Rightarrow> string \<Rightarrow> int \<Rightarrow> (error + string) \<times> store"
where
  "signup s email password restaurantName paymentToken uuid now =
     (if email = [] \<or> password = [] \<or> restaurantName = [] \<or> paymentToken = []
      then (Inl ValidationError, s)
      else if paymentToken \<noteq> ''PAID''
      then (Inl PaymentRequired, s)
      else if truthy_entry (kv_get (restaurants s) (email_key email))
      then (Inl DuplicateEmail, s)
      else
        let restaurantId = uuid;
            restaurant = \<lparr>r_id = restaurantId, r_email = email, r_password = password,
                          r_name = restaurantName, r_paid = True, r_managerPassword = [],
                          r_createdAt = now\<rparr>;
            s1 = s\<lparr>restaurants :=
                     kv_set (restaurants s) (restaurant_key restaurantId) (Restaurant restaurant)\<rparr>;
            s2 = s1\<lparr>restaurants :=
                     kv_set (restaurants s1) (email_key email) (RestaurantId restaurantId)\<rparr>;
            s3 = init_tables s2 restaurantId 1
        in (Inr restaurantId, s3))"

text \<open>
  \<^verbatim>\<open>POST /set-manager-password\<close> (lines 106-123). Assigning a property to a string (the
  key holds an id) throws in module code, which the handler's \<^verbatim>\<open>catch\<close> answers.
\<close>

definition setManagerPassword :: "store \<Rightarrow> string \<Rightarrow> string \<Rightarrow> (error + unit) \<times> store" where
  "setManagerPassword s restaurantId password =
     (case kv_get (restaurants s) (restaurant_key restaurantId) of
        None \<Rightarrow> (Inl NotFound, s)
      | Some (RestaurantId i) \<Rightarrow> (if i = [] then (Inl NotFound, s) else (Inl InternalError, s))
      | Some (Restaurant restaurant) \<Rightarrow>
          (Inr (),
           s\<lparr>restaurants := kv_set (restaurants s) (restaurant_key restaurantId)
                               (Restaurant (restaurant\<lparr>r_managerPassword := password\<rparr>))\<rparr>))"

text \<open>
  \<^verbatim>\<open>POST /verify-manager\<close> (lines 126-144). A string has no \<^verbatim>\<open>managerPassword\<close> property,
  so when the key holds a non-empty id the comparison \<^verbatim>\<open>!==\<close> is true.
\<close>

definition verifyManagerPassword :: "store \<Rightarrow> string \<Rightarrow> string \<Rightarrow> (error + unit) \<times> store" where
  "verifyManagerPassword s restaurantId password =
     (case kv_get (restaurants s) (restaurant_key restaurantId) of
        None \<Rightarrow> (Inl NotFound, s)
      | Some (RestaurantId i) \<Rightarrow> (if i = [] then (Inl NotFound, s) else (Inl Unauthorized, s))
      | Some (Restaurant restaurant) \<Rightarrow>
          (if r_managerPassword restaurant \<noteq> password then (Inl Unauthorized, s)
           else (Inr (), s)))"

text \<open>\<^verbatim>\<open>GET /tables/:restaurantId\<close> (lines 147-157).\<close>

definition listTables :: "store \<Rightarrow> string \<Rightarrow> table_rec set" where
  "listTables s restaurantId = kv_getByPrefix (tables s) (table_prefix restaurantId)"

subsection \<open>Table and order ledger\<close>

text \<open>
  The inventory update of \<^verbatim>\<open>POST /orders\<close> (lines 184-197): the inner loop over the
  ingredients of one product, for an item ordered \<open>itemQuantity\<close> times. An ingredient
  with no inventory record is skipped.
\<close>

fun deduct_ingredients :: "store \<Rightarrow> string \<Rightarrow> real \<Rightarrow> ingredient list \<Rightarrow> store" where
  "deduct_ingredients s restaurantId itemQuantity [] = s"
| "deduct_ingredients s restaurantId itemQuantity (ingredient # rest) =
     (let inventoryKey = inventory_key restaurantId (ing_name ingredient) in
      deduct_ingredients
        (case kv_get (inventory s) inventoryKey of
           None \<Rightarrow> s
         | Some current \<Rightarrow>
             s\<lparr>inventory := kv_set (inventory s) inventoryKey
                   (current\<lparr>inv_quantity :=
                      js_sub (inv_quantity current)
                        (js_mul (ing_quantity ingredient) itemQuantity)\<rparr>)\<rparr>)
        restaurantId itemQuantity rest)"

text \<open>
  The outer loop over the ordered items. \<^verbatim>\<open>product.ingredients\<close> is an array, which is
  truthy also when empty, so the guard \<^verbatim>\<open>product && product.ingredients\<close> is the test
  that the product exists.
\<close>

fun deduct_items :: "store \<Rightarrow> string \<Rightarrow> line_item list \<Rightarrow> store" where
  "deduct_items s restaurantId [] = s"
| "deduct_items s restaurantId (item # rest) =
     deduct_items
       (case kv_get (products s) (product_key restaurantId (li_productId item)) of
          None \<Rightarrow> s
        | Some product \<Rightarrow>
            deduct_ingredients s restaurantId (li_quantity item) (p_ingredients product))
       restaurantId rest"

text \<open>
  \<^verbatim>\<open>POST /orders\<close> (lines 160-204). \<open>uuid\<close> is the result of \<^verbatim>\<open>crypto.randomUUID()\<close> and
  \<open>now\<close> that of \<^verbatim>\<open>Date.now()\<close>. The \<^verbatim>\<open>orders\<close> field of a stored table is an array, so
  \<^verbatim>\<open>table.orders || []\<close> is \<^verbatim>\<open>table.orders\<close>.
\<close>

definition placeOrder ::
  "store \<Rightarrow> string \<Rightarrow> int \<Rightarrow> line_item list \<Rightarrow> string \<Rightarrow> int \<Rightarrow> (error + string) \<times> store"
where
  "placeOrder s restaurantId tableNumber items uuid now =
     (let orderId = uuid;
          order = \<lparr>o_id = orderId, o_restaurantId = restaurantId, o_tableNumber = tableNumber,
                   o_items = items, o_status = ''pending'', o_timestamp = now\<rparr>;
          s1 = s\<lparr>orders := kv_set (orders s) (order_key restaurantId orderId) order\<rparr>;
          s2 = (case kv_get (tables s1) (table_key restaurantId tableNumber) of
                  None \<Rightarrow> s1
                | Some table \<Rightarrow>
                    s1\<lparr>tables := kv_set (tables s1) (table_key restaurantId tableNumber)
                                    (table\<lparr>t_orders := t_orders table @ [orderId]\<rparr>)\<rparr>);
          s3 = deduct_items s2 restaurantId items
      in (Inr orderId, s3))"

text \<open>\<^verbatim>\<open>PUT /orders/:orderId/ready\<close> (lines 226-244).\<close>

definition markReady :: "store \<Rightarrow> string \<Rightarrow> string \<Rightarrow> (error + unit) \<times> store" where
  "markReady s restaurantId orderId =
     (case kv_get (orders s) (order_key restaurantId orderId) of
        None \<Rightarrow> (Inl NotFound, s)
      | Some order \<Rightarrow>
          (Inr (),
           s\<lparr>orders := kv_set (orders s) (order_key restaurantId orderId)
                          (order\<lparr>o_status := ''ready''\<rparr>)\<rparr>))"

text \<open>\<^verbatim>\<open>DELETE /orders/:orderId\<close> (lines 247-259).\<close>

definition completeOrder :: "store \<Rightarrow> string \<Rightarrow> string \<Rightarrow> (error + unit) \<times> store" where
  "completeOrder s restaurantId orderId =
     (Inr (), s\<lparr>orders := kv_del (orders s) (order_key restaurantId orderId)\<rparr>)"

text \<open>
  \<^verbatim>\<open>Array.prototype.splice(start, 1)\<close>: a negative start counts from the end and is
  clamped at 0, a start beyond the length is clamped at the length, and at most the
  elements that are there are deleted.
\<close>

definition splice_one :: "'a list \<Rightarrow> int \<Rightarrow> 'a list" where
  "splice_one xs start =
     (let len = int (length xs);
          actualStart = (if start < 0 then max (len + start) 0 else min start len);
          actualDeleteCount = min (max 1 0) (len - actualStart)
      in take (nat actualStart) xs @ drop (nat (actualStart + actualDeleteCount)) xs)"

text \<open>
  \<^verbatim>\<open>PUT /orders/:orderId/items\<close> (lines 262-285). With a nonzero quantity and an index
  that is no position of the list, \<^verbatim>\<open>order.items[itemIndex]\<close> is \<^verbatim>\<open>undefined\<close>, the
  assignment to its property throws, and the \<^verbatim>\<open>catch\<close> block answers 500 before
  anything is written.
\<close>

definition updateLineItem ::
  "store \<Rightarrow> string \<Rightarrow> string \<Rightarrow> int \<Rightarrow> real \<Rightarrow> (error + unit) \<times> store"
where
  "updateLineItem s restaurantId orderId itemIndex quantity =
     (case kv_get (orders s) (order_key restaurantId orderId) of
        None \<Rightarrow> (Inl NotFound, s)
      | Some order \<Rightarrow>
          if quantity = 0
          then (Inr (),
                s\<lparr>orders := kv_set (orders s) (order_key restaurantId orderId)
                     (order\<lparr>o_items := splice_one (o_items order) itemIndex\<rparr>)\<rparr>)
          else if 0 \<le> itemIndex \<and> itemIndex < int (length (o_items order))
          then (Inr (),
                s\<lparr>orders := kv_set (orders s) (order_key restaurantId orderId)
                     (order\<lparr>o_items := (o_items order)
                        [nat itemIndex :=
                           (o_items order ! nat itemIndex)\<lparr>li_quantity := quantity\<rparr>]\<rparr>)\<rparr>)
          else (Inl InternalError, s))"

text \<open>
  The loop of \<^verbatim>\<open>GET /tables/:restaurantId/:tableNumber/orders\<close> (lines 298-304): the
  orders the ids resolve to, in the order of the ids, skipping an id that resolves to
  nothing.
\<close>

fun collect_orders :: "store \<Rightarrow> string \<Rightarrow> string list \<Rightarrow> order list" where
  "collect_orders s restaurantId [] = []"
| "collect_orders s restaurantId (orderId # rest) =
     (case kv_get (orders s) (order_key restaurantId orderId) of
        None \<Rightarrow> collect_orders s restaurantId rest
      | Some order \<Rightarrow> order # collect_orders s restaurantId rest)"

text \<open>
  \<^verbatim>\<open>GET /tables/:restaurantId/:tableNumber/orders\<close> (lines 288-311); \<open>tableNumber\<close> is the
  integer that \<^verbatim>\<open>parseInt\<close> read from the route. (A route segment that is no number
  gives \<^verbatim>\<open>NaN\<close> and so a key that no registration writes; the model starts from the
  parsed integer.)
\<close>

definition listTableOrders :: "store \<Rightarrow> string \<Rightarrow> int \<Rightarrow> error + order list" where
  "listTableOrders s restaurantId tableNumber =
     (case kv_get (tables s) (table_key restaurantId tableNumber) of
        None \<Rightarrow> Inr []
      | Some table \<Rightarrow> Inr (collect_orders s restaurantId (t_orders table)))"

text \<open>The loop of \<^verbatim>\<open>POST /tables/:restaurantId/:tableNumber/close\<close> (lines 325-327).\<close>

fun delete_orders :: "store \<Rightarrow> string \<Rightarrow> string list \<Rightarrow> store" where
  "delete_orders s restaurantId [] = s"
| "delete_orders s restaurantId (orderId # rest) =
     delete_orders (s\<lparr>orders := kv_del (orders s) (order_key restaurantId orderId)\<rparr>)
       restaurantId rest"

text \<open>
  \<^verbatim>\<open>POST /tables/:restaurantId/:tableNumber/close\<close> (lines 314-351); \<open>tableNumber\<close> is the
  integer that \<^verbatim>\<open>parseInt\<close> read from the route, \<open>subtotal\<close> the number in the request
  body and \<open>today\<close> the date string \<^verbatim>\<open>new Date().toISOString().split('T')[0]\<close>. The
  literal \<^verbatim>\<open>1.1\<close> of line 342 is the double nearest to 1.1, and the product and the sum
  are rounded.
\<close>

definition closeTable ::
  "store \<Rightarrow> string \<Rightarrow> int \<Rightarrow> real \<Rightarrow> string \<Rightarrow> (error + unit) \<times> store"
where
  "closeTable s restaurantId tableNumber subtotal today =
     (case kv_get (tables s) (table_key restaurantId tableNumber) of
        None \<Rightarrow> (Inl NotFound, s)
      | Some table \<Rightarrow>
          let s1 = delete_orders s restaurantId (t_orders table);
              s2 = s1\<lparr>tables := kv_set (tables s1) (table_key restaurantId tableNumber)
                                   (table\<lparr>t_orders := []\<rparr>)\<rparr>;
              salesKey = sales_key restaurantId today;
              sales0 = (case kv_get (sales s2) salesKey of
                          None \<Rightarrow> \<lparr>s_date = today, s_total = Finite 0, s_count = 0\<rparr>
                        | Some found \<Rightarrow> found);
              sales1 = sales0\<lparr>s_total :=
                         js_add (s_total sales0) (js_mul subtotal (js_round 1.1))\<rparr>;
              sales2 = sales1\<lparr>s_count := s_count sales1 + 1\<rparr>;
              s3 = s2\<lparr>sales := kv_set (sales s2) salesKey sales2\<rparr>
          in (Inr (), s3))"

subsection \<open>Products, inventory\<close>

text \<open>\<^verbatim>\<open>POST /products\<close> (lines 367-387); \<open>uuid\<close> is the result of \<^verbatim>\<open>crypto.randomUUID()\<close>.\<close>

definition addProduct ::
  "store \<Rightarrow> string \<Rightarrow> string \<Rightarrow> real \<Rightarrow> string \<Rightarrow> ingredient list \<Rightarrow> string
     \<Rightarrow> (error + string) \<times> store"
where
  "addProduct s restaurantId name price category ingredients uuid =
     (let productId = uuid;
          product = \<lparr>p_id = productId, p_name = name, p_price = price,
                     p_category = category, p_ingredients = ingredients\<rparr>
      in (Inr productId,
          s\<lparr>products := kv_set (products s) (product_key restaurantId productId) product\<rparr>))"

text \<open>\<^verbatim>\<open>DELETE /products/:productId\<close> (lines 390-402).\<close>

definition deleteProduct :: "store \<Rightarrow> string \<Rightarrow> string \<Rightarrow> (error + unit) \<times> store" where
  "deleteProduct s restaurantId productId =
     (Inr (), s\<lparr>products := kv_del (products s) (product_key restaurantId productId)\<rparr>)"

text \<open>\<^verbatim>\<open>POST /inventory\<close> (lines 418-437).\<close>

definition adjustInventory ::
  "store \<Rightarrow> string \<Rightarrow> string \<Rightarrow> real \<Rightarrow> string \<Rightarrow> (error + unit) \<times> store"
where
  "adjustInventory s restaurantId ingredient quantity unit =
     (let inventoryKey = inventory_key restaurantId ingredient;
          current = (case kv_get (inventory s) inventoryKey of
                       None \<Rightarrow>
                         \<lparr>inv_ingredient = ingredient, inv_quantity = Finite 0, inv_unit = unit\<rparr>
                     | Some found \<Rightarrow> found);
          current1 = current\<lparr>inv_quantity := js_add (inv_quantity current) (Finite quantity)\<rparr>
      in (Inr (), s\<lparr>inventory := kv_set (inventory s) inventoryKey current1\<rparr>))"

subsection \<open>The server as a whole\<close>

text \<open>
  The requests that can change the store, one constructor per route, with the request
  fields and what the handler reads from its environment. The \<^verbatim>\<open>GET\<close> routes, the
  login and the manager-password check write nothing.
\<close>

datatype request =
    Signup string string string string string int
  | SetManagerPassword string string
  | PlaceOrder string int "line_item list" string int
  | MarkReady string string
  | CompleteOrder string string
  | UpdateLineItem string string int real
  | CloseTable string int real string
  | AddProduct string string real string "ingredient list" string
  | DeleteProduct string string
  | AdjustInventory string string real string

fun serve :: "store \<Rightarrow> request \<Rightarrow> store" where
  "serve s (Signup email password restaurantName paymentToken uuid now) =
     snd (signup s email password restaurantName paymentToken uuid now)"
| "serve s (SetManagerPassword restaurantId password) =
     snd (setManagerPassword s restaurantId password)"
| "serve s (PlaceOrder restaurantId tableNumber items uuid now) =
     snd (placeOrder s restaurantId tableNumber items uuid now)"
| "serve s (MarkReady restaurantId orderId) = snd (markReady s restaurantId orderId)"
| "serve s (CompleteOrder restaurantId orderId) = snd (completeOrder s restaurantId orderId)"
| "serve s (UpdateLineItem restaurantId orderId itemIndex quantity) =
     snd (updateLineItem s restaurantId orderId itemIndex quantity)"
| "serve s (CloseTable restaurantId tableNumber subtotal today) =
     snd (closeTable s restaurantId tableNumber subtotal today)"
| "serve s (AddProduct restaurantId name price category ingredients uuid) =
     snd (addProduct s restaurantId name price category ingredients uuid)"
| "serve s (DeleteProduct restaurantId productId) = snd (deleteProduct s restaurantId productId)"
| "serve s (AdjustInventory restaurantId ingredient quantity unit) =
     snd (adjustInventory s restaurantId ingredient quantity unit)"

fun serve_all :: "store \<Rightarrow> request list \<Rightarrow> store" where
  "serve_all s [] = s"
| "serve_all s (request # rest) = serve_all (serve s request) rest"

text \<open>The ids a request carries from \<^verbatim>\<open>crypto.randomUUID()\<close> are UUIDs.\<close>

fun minted_uuid :: "request \<Rightarrow> bool" where
  "minted_uuid (Signup email password restaurantName paymentToken uuid now) = is_uuid uuid"
| "minted_uuid (PlaceOrder restaurantId tableNumber items uuid now) = is_uuid uuid"
| "minted_uuid (AddProduct restaurantId name price category ingredients uuid) = is_uuid uuid"
| "minted_uuid _ = True"

text \<open>Whether a request sets the manager password of the given restaurant.\<close>

fun sets_manager_password :: "string \<Rightarrow> request \<Rightarrow> bool" where
  "sets_manager_password rid (SetManagerPassword restaurantId password) = (restaurantId = rid)"
| "sets_manager_password rid _ = False"

text \<open>The store of a fresh deployment holds nothing.\<close>

definition empty_store :: store where
  "empty_store =
     \<lparr>restaurants = Map.empty, tables = Map.empty, orders = Map.empty,
      products = Map.empty, inventory = Map.empty, sales = Map.empty\<rparr>"

subsection \<open>The inventory deduction as the specification words it\<close>

text \<open>
  What one ordered item takes of the ingredient \<open>name\<close>: one amount
  \<^verbatim>\<open>ingredient.quantity * item.quantity\<close> for each requirement of that name that the
  item's product declares, in the order of the declaration.
\<close>

definition spec_item_deductions ::
  "string \<Rightarrow> real \<Rightarrow> ingredient list \<Rightarrow> js_number list" where
  "spec_item_deductions name itemQuantity ingredients =
     map (\<lambda>ingredient. js_mul (ing_quantity ingredient) itemQuantity)
       (filter (\<lambda>i. ing_name i = name) ingredients)"

text \<open>
  What a whole order takes of the ingredient \<open>name\<close>: the amounts of its items in the
  order of the items; an item whose product does not exist takes nothing.
\<close>

definition spec_deductions ::
  "(string \<rightharpoonup> product) \<Rightarrow> string \<Rightarrow> line_item list \<Rightarrow> string \<Rightarrow> js_number list" where
  "spec_deductions ps restaurantId items name =
     concat (map (\<lambda>item.
        case kv_get ps (product_key restaurantId (li_productId item)) of
          None \<Rightarrow> []
        | Some product \<Rightarrow>
            spec_item_deductions name (li_quantity item) (p_ingredients product)) items)"

subsection \<open>A small restaurant, for concrete runs\<close>

definition demo_uuid :: string where
  "demo_uuid = ''9b2f6c1e-4d3a-4f7b-8c21-0a5e7d9f3b64''"

definition demo_item :: line_item where
  "demo_item =
     \<lparr>li_productId = ''p1'', li_name = ''Burger'', li_quantity = 3, li_price = 12,
      li_category = ''food''\<rparr>"

definition demo_order :: order where
  "demo_order =
     \<lparr>o_id = ''o1'', o_restaurantId = ''r1'', o_tableNumber = 3, o_items = [demo_item],
      o_status = ''pending'', o_timestamp = 1700000000000\<rparr>"

definition demo_product :: product where
  "demo_product =
     \<lparr>p_id = ''p1'', p_name = ''Burger'', p_price = 12, p_category = ''food'',
      p_ingredients = [\<lparr>ing_name = ''bun'', ing_quantity = 1, ing_unit = ''pc''\<rparr>,
                       \<lparr>ing_name = ''beef'', ing_quantity = 150, ing_unit = ''g''\<rparr>]\<rparr>"

text \<open>
  Restaurant \<open>r1\<close> with table 3 holding order \<open>o1\<close> (three burgers), the burger in the
  menu, and two buns in stock.
\<close>

definition demo_store :: store where
  "demo_store =
     \<lparr>restaurants = Map.empty,
      tables = [table_key ''r1'' 3 \<mapsto> \<lparr>t_number = 3, t_orders = [''o1'']\<rparr>],
      orders = [order_key ''r1'' ''o1'' \<mapsto> demo_order],
      products = [product_key ''r1'' ''p1'' \<mapsto> demo_product],
      inventory = [inventory_key ''r1'' ''bun'' \<mapsto>
                     \<lparr>inv_ingredient = ''bun'', inv_quantity = Finite 2, inv_unit = ''pc''\<rparr>],
      sales = Map.empty\<rparr>"

text \<open>
  The same restaurant with an espresso in the menu that takes 0.15 kg of coffee, and
  0.45 kg of coffee in stock: the amounts are the doubles that the decimal numerals
  denote, as \<^verbatim>\<open>parseFloat\<close> of the manager screen gives them.
\<close>

definition coffee_stock :: real where
  "coffee_stock = js_round 0.45"

definition coffee_need :: real where
  "coffee_need = js_round 0.15"

definition cafe_item :: line_item where
  "cafe_item =
     \<lparr>li_productId = ''p2'', li_name = ''Espresso'', li_quantity = 3, li_price = 2,
      li_category = ''drink''\<rparr>"

definition cafe_product :: product where
  "cafe_product =
     \<lparr>p_id = ''p2'', p_name = ''Espresso'', p_price = 2, p_category = ''drink'',
      p_ingredients = [\<lparr>ing_name = ''coffee'', ing_quantity = coffee_need, ing_unit = ''kg''\<rparr>]\<rparr>"

definition cafe_store :: store where
  "cafe_store =
     demo_store
       \<lparr>products := (products demo_store)(product_key ''r1'' ''p2'' \<mapsto> cafe_product),
        inventory := (inventory demo_store)
          (inventory_key ''r1'' ''coffee'' \<mapsto>
             \<lparr>inv_ingredient = ''coffee'', inv_quantity = Finite coffee_stock, inv_unit = ''kg''\<rparr>)\<rparr>"

section \<open>Properties\<close>

subsection \<open>Keys and loops\<close>

lemmas kv_defs = kv_get_def kv_set_def kv_del_def

lemma order_key_inj: "order_key rid a = order_key rid b \<longleftrightarrow> a = b"
  by (simp add: order_key_def)

lemma inventory_key_inj: "inventory_key rid a = inventory_key rid b \<longleftrightarrow> a = b"
  by (simp add: inventory_key_def)

text \<open>Closing a table removes exactly the orders its list names and changes no other map.\<close>

lemma delete_orders_eq:
  "delete_orders s rid ids =
     s\<lparr>orders := (\<lambda>k. if k \<in> order_key rid ` set ids then None else orders s k)\<rparr>"
proof (induction ids arbitrary: s)
  case Nil
  show ?case by simp
next
  case (Cons a ids)
  show ?case
    unfolding delete_orders.simps Cons.IH
    by (rule store.equality) (auto simp: kv_defs fun_eq_iff)
qed

lemma collect_orders_append:
  "collect_orders s rid (xs @ ys) = collect_orders s rid xs @ collect_orders s rid ys"
  by (induction xs) (simp_all split: option.splits)

lemma collect_orders_deleted:
  "orders s' = (orders s)(order_key rid oid := None) \<Longrightarrow>
   collect_orders s' rid ids = collect_orders s rid (filter (\<lambda>i. i \<noteq> oid) ids)"
  by (induction ids) (auto simp: kv_defs order_key_inj split: option.splits)

text \<open>The inventory loops write the inventory only.\<close>

lemma deduct_ingredients_frame [simp]:
  "restaurants (deduct_ingredients s rid q ings) = restaurants s"
  "tables (deduct_ingredients s rid q ings) = tables s"
  "orders (deduct_ingredients s rid q ings) = orders s"
  "products (deduct_ingredients s rid q ings) = products s"
  "sales (deduct_ingredients s rid q ings) = sales s"
  by (induction ings arbitrary: s; simp add: Let_def split: option.splits)+

lemma deduct_items_frame [simp]:
  "restaurants (deduct_items s rid items) = restaurants s"
  "tables (deduct_items s rid items) = tables s"
  "orders (deduct_items s rid items) = orders s"
  "products (deduct_items s rid items) = products s"
  "sales (deduct_items s rid items) = sales s"
  by (induction items arbitrary: s; simp split: option.splits)+

text \<open>
  The loops interleave the ingredients of all names; for one name they are a run of
  subtractions from its stock, in the order of the requirements.
\<close>

lemma deduct_ingredients_inventory:
  "inventory (deduct_ingredients s rid q ings) (inventory_key rid nm) =
     map_option (\<lambda>c. c\<lparr>inv_quantity :=
                        foldl js_sub (inv_quantity c) (spec_item_deductions nm q ings)\<rparr>)
       (inventory s (inventory_key rid nm))"
proof (induction ings arbitrary: s)
  case Nil
  show ?case by (simp add: spec_item_deductions_def option.map_ident)
next
  case (Cons ing rest)
  show ?case
  proof (cases "inventory s (inventory_key rid (ing_name ing))")
    case None
    then show ?thesis
      by (cases "ing_name ing = nm")
         (simp_all add: Cons.IH kv_defs spec_item_deductions_def)
  next
    case (Some current)
    then show ?thesis
      by (cases "ing_name ing = nm")
         (simp_all add: Cons.IH kv_defs spec_item_deductions_def inventory_key_inj)
  qed
qed

lemma deduct_ingredients_other:
  "\<forall>nm. k \<noteq> inventory_key rid nm \<Longrightarrow>
   inventory (deduct_ingredients s rid q ings) k = inventory s k"
  by (induction ings arbitrary: s) (auto simp: Let_def kv_defs split: option.splits)

lemma deduct_items_inventory:
  "inventory (deduct_items s rid items) (inventory_key rid nm) =
     map_option (\<lambda>c. c\<lparr>inv_quantity :=
                        foldl js_sub (inv_quantity c) (spec_deductions (products s) rid items nm)\<rparr>)
       (inventory s (inventory_key rid nm))"
proof (induction items arbitrary: s)
  case Nil
  show ?case by (simp add: spec_deductions_def option.map_ident)
next
  case (Cons item rest)
  show ?case
  proof (cases "products s (product_key rid (li_productId item))")
    case None
    then show ?thesis by (simp add: Cons.IH kv_defs spec_deductions_def)
  next
    case (Some product)
    then show ?thesis
      by (simp add: Cons.IH kv_defs spec_deductions_def deduct_ingredients_inventory
            option.map_comp comp_def)
  qed
qed

lemma deduct_items_other:
  "\<forall>nm. k \<noteq> inventory_key rid nm \<Longrightarrow>
   inventory (deduct_items s rid items) k = inventory s k"
  by (induction items arbitrary: s) (auto simp: deduct_ingredients_other split: option.splits)

text \<open>Unfolding the rounding on a numeral computes the double.\<close>

lemmas js_eval =
  js_sub_def js_mul_def js_finite_def js_round_def round_pos_def
  scale_hi.simps scale_lo.simps half_even_def Let_def

text \<open>
  Three values that JavaScript is known for: 0.1 + 0.2 is 0.30000000000000004, an odd
  integer just above \<open>2 ^ 53\<close> goes to the even neighbour, and three halves of the
  smallest subnormal number go to two of them.
\<close>

lemma js_round_known:
  "js_add (Finite (js_round 0.1)) (Finite (js_round 0.2)) =
     Finite (1351079888211149 / 4503599627370496)"
  "js_round (2 ^ 53 + 1) = 2 ^ 53"
  "js_round (2 ^ 53 + 3) = 2 ^ 53 + 4"
  "js_round (3 / 2 ^ 1075) = 1 / 2 ^ 1073"
  "js_mul (2 ^ 1023) 2 = PosInfinity"
  "js_sub PosInfinity PosInfinity = NaN"
  by (simp_all add: js_eval)

text \<open>Every integer of magnitude below \<open>2 ^ 53\<close> is a double.\<close>

lemma half_even_int: "half_even (of_int n) = n"
  by (simp add: half_even_def)

lemma scale_lo_integral: "x = of_int n \<Longrightarrow> scale_lo x e = x"
proof (induction x e arbitrary: n rule: scale_lo.induct)
  case (1 x e)
  show ?case
  proof (cases "x < 2 ^ 52 \<and> - 1074 < e")
    case True
    from "1.prems" have "2 * x = of_int (2 * n)" by simp
    from "1.IH" [OF True this] have "scale_lo (2 * x) (e - 1) = 2 * x" .
    moreover from True have "scale_lo x e = scale_lo (2 * x) (e - 1) / 2"
      by (subst scale_lo.simps) (simp only: if_True simp_thms)
    ultimately show ?thesis by simp
  next
    case False
    then have "scale_lo x e = of_int (half_even x)"
      by (subst scale_lo.simps) (simp only: if_False simp_thms)
    with "1.prems" show ?thesis by (simp add: half_even_int)
  qed
qed

lemma scale_lo_int: "scale_lo (of_int n) e = of_int n"
  by (rule scale_lo_integral) (rule refl)

lemma js_round_int: "\<bar>n\<bar> < 2 ^ 53 \<Longrightarrow> js_round (of_int n) = of_int n"
proof -
  assume n: "\<bar>n\<bar> < 2 ^ 53"
  have small: "\<not> (2 ^ 53 \<le> (of_int m :: real))" if "m < 2 ^ 53" for m :: int
  proof -
    from that have "(of_int m :: real) < of_int (2 ^ 53)" by (simp only: of_int_less_iff)
    then show ?thesis by simp
  qed
  show ?thesis
  proof (cases "n < 0")
    case True
    with n have "- n < 2 ^ 53" by simp
    from small [OF this] have "round_pos (of_int (- n)) = of_int (- n)"
      by (simp only: round_pos_def if_False scale_lo_int)
    with True show ?thesis by (simp add: js_round_def)
  next
    case False
    with n have "n < 2 ^ 53" by simp
    from small [OF this] have "round_pos (of_int n) = of_int n"
      by (simp only: round_pos_def if_False scale_lo_int)
    with False show ?thesis by (simp add: js_round_def)
  qed
qed

lemma is_double_int: "\<bar>n\<bar> < 2 ^ 53 \<Longrightarrow> is_double (of_int n)"
proof -
  assume n: "\<bar>n\<bar> < 2 ^ 53"
  then have "\<bar>of_int n :: real\<bar> < of_int (2 ^ 53)"
    by (simp only: of_int_abs [symmetric] of_int_less_iff)
  then have "\<bar>of_int n :: real\<bar> < 2 ^ 53" by simp
  moreover have "(2::real) ^ 53 < 2 ^ 1024" by simp
  ultimately have "\<bar>of_int n :: real\<bar> < 2 ^ 1024" by (rule less_trans)
  with js_round_int [OF n] show ?thesis by (simp add: is_double_def)
qed

lemma js_finite_double: "is_double x \<Longrightarrow> js_finite x = Finite x"
  by (auto simp: is_double_def js_finite_def)

lemma double_1_1: "js_round 1.1 = 2476979795053773 / 2251799813685248"
  by (simp add: js_eval)

lemma double_0_45: "js_round 0.45 = 8106479329266893 / 18014398509481984"
  by (simp add: js_eval)

lemma double_0_15: "js_round 0.15 = 5404319552844595 / 36028797018963968"
  by (simp add: js_eval)

lemmas demo_defs =
  demo_store_def demo_order_def demo_item_def demo_product_def empty_store_def
  table_key_def order_key_def product_key_def inventory_key_def sales_key_def
  number_to_string_def nat_to_string.simps digit_char_def

subsection \<open>Closing a table\<close>

text \<open>
  C1, as stated, fails: the handler computes the new total in doubles. Closing table 3
  of the demo restaurant with a subtotal of 100 on a day with no sales record stores
  the total \<open>110 + 2 ^ -46\<close> (JavaScript prints it as 110.00000000000001), not
  100 times 1.10.
\<close>

theorem closeTable_counterexample:
  "kv_get (tables demo_store) (table_key ''r1'' 3) = Some \<lparr>t_number = 3, t_orders = [''o1'']\<rparr> \<and>
   kv_get (sales demo_store) (sales_key ''r1'' ''2024-05-01'') = None \<and>
   kv_get (sales (snd (closeTable demo_store ''r1'' 3 100 ''2024-05-01'')))
     (sales_key ''r1'' ''2024-05-01'') =
     Some \<lparr>s_date = ''2024-05-01'', s_total = Finite (7740561859543041 / 70368744177664),
           s_count = 1\<rparr> \<and>
   Finite (7740561859543041 / 70368744177664) \<noteq> Finite (0 + 100 * 1.10)"
proof -
  have mul: "js_mul 100 (js_round 1.1) = Finite (7740561859543041 / 70368744177664)"
    by (simp add: double_1_1) (simp add: js_eval)
  have add: "js_finite (7740561859543041 / 70368744177664) =
      Finite (7740561859543041 / 70368744177664)"
    by (simp add: js_eval)
  show ?thesis
    by (simp add: closeTable_def Let_def kv_defs delete_orders_eq mul add demo_defs)
qed

text \<open>
  C1, amended: when the table exists, \<open>closeTable\<close> succeeds, deletes every order that
  the table's order list references (and no other order), stores the table with an
  empty order list, so that \<open>listTableOrders\<close> then answers the empty sequence, and
  upserts the day's sales record: the new total is the double sum of the old total (0
  when the day has no record yet) and the double product of the subtotal and 1.1, each
  rounded to the nearest double, and the count grows by exactly 1. When the table does
  not exist it fails with \<open>NotFound\<close> and the store is unchanged.
\<close>

theorem closeTable_effect:
  "(kv_get (tables s) (table_key rid n) = None \<longrightarrow>
      closeTable s rid n subtotal today = (Inl NotFound, s)) \<and>
   (\<forall>table. kv_get (tables s) (table_key rid n) = Some table \<longrightarrow>
      fst (closeTable s rid n subtotal today) = Inr () \<and>
      (\<forall>oid \<in> set (t_orders table).
         kv_get (orders (snd (closeTable s rid n subtotal today))) (order_key rid oid) = None) \<and>
      kv_get (tables (snd (closeTable s rid n subtotal today))) (table_key rid n) =
        Some (table\<lparr>t_orders := []\<rparr>) \<and>
      listTableOrders (snd (closeTable s rid n subtotal today)) rid n = Inr [] \<and>
      kv_get (sales (snd (closeTable s rid n subtotal today))) (sales_key rid today) =
        (case kv_get (sales s) (sales_key rid today) of
           None \<Rightarrow>
             Some \<lparr>s_date = today,
                   s_total = js_add (Finite 0) (js_mul subtotal (js_round 1.1)), s_count = 1\<rparr>
         | Some old \<Rightarrow>
             Some (old\<lparr>s_total := js_add (s_total old) (js_mul subtotal (js_round 1.1)),
                       s_count := s_count old + 1\<rparr>)) \<and>
      snd (closeTable s rid n subtotal today) =
        s\<lparr>orders := (\<lambda>k. if k \<in> order_key rid ` set (t_orders table) then None else orders s k),
          tables := (tables s)(table_key rid n \<mapsto> table\<lparr>t_orders := []\<rparr>),
          sales := (sales s)(sales_key rid today \<mapsto>
            (case kv_get (sales s) (sales_key rid today) of
               None \<Rightarrow>
                 \<lparr>s_date = today,
                  s_total = js_add (Finite 0) (js_mul subtotal (js_round 1.1)), s_count = 1\<rparr>
             | Some old \<Rightarrow>
                 old\<lparr>s_total := js_add (s_total old) (js_mul subtotal (js_round 1.1)),
                     s_count := s_count old + 1\<rparr>))\<rparr>)"
proof (intro conjI allI impI ballI)
  show "closeTable s rid n subtotal today = (Inl NotFound, s)"
    if "kv_get (tables s) (table_key rid n) = None"
    using that by (simp add: closeTable_def)
next
  fix table
  assume t: "kv_get (tables s) (table_key rid n) = Some table"
  show st: "snd (closeTable s rid n subtotal today) =
        s\<lparr>orders := (\<lambda>k. if k \<in> order_key rid ` set (t_orders table) then None else orders s k),
          tables := (tables s)(table_key rid n \<mapsto> table\<lparr>t_orders := []\<rparr>),
          sales := (sales s)(sales_key rid today \<mapsto>
            (case kv_get (sales s) (sales_key rid today) of
               None \<Rightarrow>
                 \<lparr>s_date = today,
                  s_total = js_add (Finite 0) (js_mul subtotal (js_round 1.1)), s_count = 1\<rparr>
             | Some old \<Rightarrow>
                 old\<lparr>s_total := js_add (s_total old) (js_mul subtotal (js_round 1.1)),
                     s_count := s_count old + 1\<rparr>))\<rparr>"
    using t
    by (simp add: closeTable_def Let_def delete_orders_eq kv_defs split: option.splits)
  show "fst (closeTable s rid n subtotal today) = Inr ()"
    using t by (simp add: closeTable_def Let_def)
  show "kv_get (orders (snd (closeTable s rid n subtotal today))) (order_key rid oid) = None"
    if "oid \<in> set (t_orders table)" for oid
    using that by (simp add: st kv_defs)
  show "kv_get (tables (snd (closeTable s rid n subtotal today))) (table_key rid n) =
        Some (table\<lparr>t_orders := []\<rparr>)"
    by (simp add: st kv_defs)
  show "listTableOrders (snd (closeTable s rid n subtotal today)) rid n = Inr []"
    by (simp add: st listTableOrders_def kv_defs)
  show "kv_get (sales (snd (closeTable s rid n subtotal today))) (sales_key rid today) =
        (case kv_get (sales s) (sales_key rid today) of
           None \<Rightarrow>
             Some \<lparr>s_date = today,
                   s_total = js_add (Finite 0) (js_mul subtotal (js_round 1.1)), s_count = 1\<rparr>
         | Some old \<Rightarrow>
             Some (old\<lparr>s_total := js_add (s_total old) (js_mul subtotal (js_round 1.1)),
                       s_count := s_count old + 1\<rparr>))"
    by (simp add: st kv_defs split: option.splits)
qed

text \<open>
  Closing table 3 of the demo restaurant with a subtotal of 10 removes order \<open>o1\<close>,
  empties the table and opens the day's record at 11 and 1 (the double product of 10
  and 1.1 is 11); table 4 does not exist.
\<close>

theorem closeTable_effect_witness:
  "kv_get (tables demo_store) (table_key ''r1'' 3) = Some \<lparr>t_number = 3, t_orders = [''o1'']\<rparr> \<and>
   fst (closeTable demo_store ''r1'' 3 10 ''2024-05-01'') = Inr () \<and>
   kv_get (orders (snd (closeTable demo_store ''r1'' 3 10 ''2024-05-01'')))
     (order_key ''r1'' ''o1'') = None \<and>
   listTableOrders (snd (closeTable demo_store ''r1'' 3 10 ''2024-05-01'')) ''r1'' 3 = Inr [] \<and>
   kv_get (sales (snd (closeTable demo_store ''r1'' 3 10 ''2024-05-01'')))
     (sales_key ''r1'' ''2024-05-01'') =
     Some \<lparr>s_date = ''2024-05-01'', s_total = Finite 11, s_count = 1\<rparr> \<and>
   kv_get (tables demo_store) (table_key ''r1'' 4) = None \<and>
   closeTable demo_store ''r1'' 4 10 ''2024-05-01'' = (Inl NotFound, demo_store)"
proof -
  have h3: "kv_get (tables demo_store) (table_key ''r1'' 3) =
      Some \<lparr>t_number = 3, t_orders = [''o1'']\<rparr>"
    by (simp add: kv_get_def demo_defs)
  have h4: "kv_get (tables demo_store) (table_key ''r1'' 4) = None"
    by (simp add: kv_get_def demo_defs)
  have s0: "kv_get (sales demo_store) (sales_key ''r1'' ''2024-05-01'') = None"
    by (simp add: kv_get_def demo_store_def)
  have amount: "js_add (Finite 0) (js_mul 10 (js_round 1.1)) = Finite 11"
    by (simp add: double_1_1) (simp add: js_eval)
  note c = closeTable_effect [of demo_store "''r1''" 3 10 "''2024-05-01''",
      THEN conjunct2, rule_format, OF h3]
  note d = closeTable_effect [of demo_store "''r1''" 4 10 "''2024-05-01''",
      THEN conjunct1, rule_format, OF h4]
  note c1 = c [THEN conjunct1]
  have c2: "kv_get (orders (snd (closeTable demo_store ''r1'' 3 10 ''2024-05-01'')))
       (order_key ''r1'' ''o1'') = None"
    using c [THEN conjunct2, THEN conjunct1] by simp
  note c4 = c [THEN conjunct2, THEN conjunct2, THEN conjunct2, THEN conjunct1]
  have c5: "kv_get (sales (snd (closeTable demo_store ''r1'' 3 10 ''2024-05-01'')))
       (sales_key ''r1'' ''2024-05-01'') =
     Some \<lparr>s_date = ''2024-05-01'', s_total = Finite 11, s_count = 1\<rparr>"
    using c [THEN conjunct2, THEN conjunct2, THEN conjunct2, THEN conjunct2, THEN conjunct1]
    by (simp add: s0 amount)
  from h3 h4 c1 c2 c4 c5 d show ?thesis by (intro conjI)
qed

subsection \<open>Placing an order\<close>

text \<open>
  C2: every \<open>placeOrder\<close> call succeeds and persists, under the new order id, an order
  with status \<open>pending\<close>, the given table number and exactly the given items. When the
  table record exists, the new id is appended at the end of its order list (and
  \<open>listTableOrders\<close> then ends with the new order); when the table lookup finds nothing,
  the order is persisted all the same, no table is written and no error is answered.
\<close>

theorem placeOrder_persists:
  "fst (placeOrder s rid tn items uuid now) = Inr uuid \<and>
   kv_get (orders (snd (placeOrder s rid tn items uuid now))) (order_key rid uuid) =
     Some \<lparr>o_id = uuid, o_restaurantId = rid, o_tableNumber = tn, o_items = items,
           o_status = ''pending'', o_timestamp = now\<rparr> \<and>
   orders (snd (placeOrder s rid tn items uuid now)) =
     (orders s)(order_key rid uuid \<mapsto>
        \<lparr>o_id = uuid, o_restaurantId = rid, o_tableNumber = tn, o_items = items,
         o_status = ''pending'', o_timestamp = now\<rparr>) \<and>
   (\<forall>table. kv_get (tables s) (table_key rid tn) = Some table \<longrightarrow>
      kv_get (tables (snd (placeOrder s rid tn items uuid now))) (table_key rid tn) =
        Some (table\<lparr>t_orders := t_orders table @ [uuid]\<rparr>) \<and>
      tables (snd (placeOrder s rid tn items uuid now)) =
        (tables s)(table_key rid tn \<mapsto> table\<lparr>t_orders := t_orders table @ [uuid]\<rparr>) \<and>
      listTableOrders (snd (placeOrder s rid tn items uuid now)) rid tn =
        Inr (collect_orders (snd (placeOrder s rid tn items uuid now)) rid (t_orders table) @
             [\<lparr>o_id = uuid, o_restaurantId = rid, o_tableNumber = tn, o_items = items,
               o_status = ''pending'', o_timestamp = now\<rparr>])) \<and>
   (kv_get (tables s) (table_key rid tn) = None \<longrightarrow>
      tables (snd (placeOrder s rid tn items uuid now)) = tables s)"
  by (simp add: placeOrder_def Let_def kv_defs listTableOrders_def collect_orders_append
        split: option.splits)

text \<open>
  A second order on table 3 of the demo restaurant is listed after \<open>o1\<close>; an order for
  the missing table 7 is persisted and leaves the tables alone.
\<close>

theorem placeOrder_persists_witness:
  "kv_get (tables demo_store) (table_key ''r1'' 3) = Some \<lparr>t_number = 3, t_orders = [''o1'']\<rparr> \<and>
   kv_get (tables (snd (placeOrder demo_store ''r1'' 3 [demo_item] demo_uuid 5)))
     (table_key ''r1'' 3) = Some \<lparr>t_number = 3, t_orders = [''o1'', demo_uuid]\<rparr> \<and>
   kv_get (tables demo_store) (table_key ''r1'' 7) = None \<and>
   fst (placeOrder demo_store ''r1'' 7 [demo_item] demo_uuid 5) = Inr demo_uuid \<and>
   kv_get (orders (snd (placeOrder demo_store ''r1'' 7 [demo_item] demo_uuid 5)))
     (order_key ''r1'' demo_uuid) =
     Some \<lparr>o_id = demo_uuid, o_restaurantId = ''r1'', o_tableNumber = 7, o_items = [demo_item],
           o_status = ''pending'', o_timestamp = 5\<rparr> \<and>
   tables (snd (placeOrder demo_store ''r1'' 7 [demo_item] demo_uuid 5)) = tables demo_store"
proof -
  have h3: "kv_get (tables demo_store) (table_key ''r1'' 3) =
      Some \<lparr>t_number = 3, t_orders = [''o1'']\<rparr>"
    by (simp add: kv_get_def demo_defs)
  have h7: "kv_get (tables demo_store) (table_key ''r1'' 7) = None"
    by (simp add: kv_get_def demo_defs)
  note a = placeOrder_persists [of demo_store "''r1''" 3 "[demo_item]" demo_uuid 5]
  note b = placeOrder_persists [of demo_store "''r1''" 7 "[demo_item]" demo_uuid 5]
  have a1: "kv_get (tables (snd (placeOrder demo_store ''r1'' 3 [demo_item] demo_uuid 5)))
     (table_key ''r1'' 3) = Some \<lparr>t_number = 3, t_orders = [''o1'', demo_uuid]\<rparr>"
    using a [THEN conjunct2, THEN conjunct2, THEN conjunct2, THEN conjunct1, rule_format,
        OF h3, THEN conjunct1]
    by simp
  note b1 = b [THEN conjunct1]
  note b2 = b [THEN conjunct2, THEN conjunct1]
  note b3 = b [THEN conjunct2, THEN conjunct2, THEN conjunct2, THEN conjunct2, rule_format, OF h7]
  from h3 a1 h7 b1 b2 b3 show ?thesis by (intro conjI)
qed

text \<open>
  C3, as stated, fails: the handler subtracts in doubles. With 0.45 kg of coffee in
  stock and three espressos of 0.15 kg each, the product is rounded to
  0.44999999999999996 and the stock that is stored is \<open>2 ^ -54\<close>, which is neither the
  stock minus \<^verbatim>\<open>ingredient.quantity\<close> times \<^verbatim>\<open>item.quantity\<close> of the stored doubles
  (\<open>2 ^ -55\<close>) nor that of the decimal amounts (0).
\<close>

theorem placeOrder_counterexample:
  "kv_get (inventory cafe_store) (inventory_key ''r1'' ''coffee'') =
     Some \<lparr>inv_ingredient = ''coffee'', inv_quantity = Finite coffee_stock, inv_unit = ''kg''\<rparr> \<and>
   kv_get (products cafe_store) (product_key ''r1'' ''p2'') = Some cafe_product \<and>
   kv_get (inventory (snd (placeOrder cafe_store ''r1'' 3 [cafe_item] demo_uuid 5)))
     (inventory_key ''r1'' ''coffee'') =
     Some \<lparr>inv_ingredient = ''coffee'', inv_quantity = Finite (1 / 18014398509481984),
           inv_unit = ''kg''\<rparr> \<and>
   Finite (1 / 18014398509481984) \<noteq> Finite (coffee_stock - coffee_need * 3) \<and>
   Finite (1 / 18014398509481984) \<noteq> Finite (0.45 - 0.15 * 3)"
proof -
  have stock: "coffee_stock = 8106479329266893 / 18014398509481984"
    unfolding coffee_stock_def by (rule double_0_45)
  have need: "coffee_need = 5404319552844595 / 36028797018963968"
    unfolding coffee_need_def by (rule double_0_15)
  have mul: "js_mul (5404319552844595 / 36028797018963968) 3 =
      Finite (2026619832316723 / 4503599627370496)"
    by (simp add: js_eval)
  have sub: "js_sub (Finite (8106479329266893 / 18014398509481984))
        (Finite (2026619832316723 / 4503599627370496)) =
      Finite (1 / 18014398509481984)"
    by (simp add: js_eval)
  have stored: "js_sub (Finite coffee_stock) (js_mul coffee_need 3) =
      Finite (1 / 18014398509481984)"
    by (simp only: stock need mul sub)
  have not_exact: "Finite (1 / 18014398509481984) \<noteq> Finite (coffee_stock - coffee_need * 3)"
    by (simp add: stock need)
  have decimal: "Finite (1 / 18014398509481984) \<noteq> Finite (0.45 - 0.15 * 3)"
    by simp
  have a: "kv_get (inventory cafe_store) (inventory_key ''r1'' ''coffee'') =
     Some \<lparr>inv_ingredient = ''coffee'', inv_quantity = Finite coffee_stock, inv_unit = ''kg''\<rparr>"
    by (simp add: kv_get_def cafe_store_def)
  have b: "kv_get (products cafe_store) (product_key ''r1'' ''p2'') = Some cafe_product"
    by (simp add: kv_get_def cafe_store_def)
  have c: "kv_get (inventory (snd (placeOrder cafe_store ''r1'' 3 [cafe_item] demo_uuid 5)))
     (inventory_key ''r1'' ''coffee'') =
     Some \<lparr>inv_ingredient = ''coffee'',
           inv_quantity = js_sub (Finite coffee_stock) (js_mul coffee_need 3),
           inv_unit = ''kg''\<rparr>"
    by (simp add: placeOrder_def Let_def kv_defs cafe_store_def cafe_product_def cafe_item_def
          demo_defs)
  from a b c [unfolded stored] not_exact decimal show ?thesis by (intro conjI)
qed

text \<open>
  C3, amended: for every \<open>placeOrder\<close> call and every ingredient name, the stored stock
  of that ingredient afterwards results from the stock before by subtracting, one
  after the other and each time rounding to the nearest double, the double products
  \<^verbatim>\<open>ingredient.quantity * item.quantity\<close> of that ingredient's requirements in the
  products of the ordered items, in the order of the items and of the requirements
  (items whose product does not exist contribute nothing); no floor is applied, so the
  result may be negative. An ingredient with no stock record gets none, and no other
  inventory key changes.
\<close>

theorem placeOrder_inventory:
  "fst (placeOrder s rid tn items uuid now) = Inr uuid \<and>
   (\<forall>nm. kv_get (inventory (snd (placeOrder s rid tn items uuid now))) (inventory_key rid nm) =
      (case kv_get (inventory s) (inventory_key rid nm) of
         None \<Rightarrow> None
       | Some current \<Rightarrow>
           Some (current\<lparr>inv_quantity :=
                   foldl js_sub (inv_quantity current)
                     (spec_deductions (products s) rid items nm)\<rparr>))) \<and>
   (\<forall>k. (\<forall>nm. k \<noteq> inventory_key rid nm) \<longrightarrow>
      kv_get (inventory (snd (placeOrder s rid tn items uuid now))) k = kv_get (inventory s) k)"
  by (simp add: placeOrder_def Let_def kv_get_def deduct_items_inventory deduct_items_other
        split: option.splits)

text \<open>
  Three burgers take three buns: with two buns in stock the stored quantity becomes
  \<open>-1\<close>. There is no stock record for beef, and none is created.
\<close>

theorem placeOrder_inventory_witness:
  "spec_deductions (products demo_store) ''r1'' [demo_item] ''bun'' = [Finite 3] \<and>
   kv_get (inventory (snd (placeOrder demo_store ''r1'' 3 [demo_item] demo_uuid 5)))
     (inventory_key ''r1'' ''bun'') =
     Some \<lparr>inv_ingredient = ''bun'', inv_quantity = Finite (- 1), inv_unit = ''pc''\<rparr> \<and>
   kv_get (inventory (snd (placeOrder demo_store ''r1'' 3 [demo_item] demo_uuid 5)))
     (inventory_key ''r1'' ''beef'') = None \<and>
   kv_get (inventory (snd (placeOrder demo_store ''r1'' 3 [demo_item] demo_uuid 5))) ''stock'' =
     kv_get (inventory demo_store) ''stock''"
proof -
  have three: "js_mul 1 3 = Finite 3"
    by (simp add: js_eval)
  have need: "spec_deductions (products demo_store) ''r1'' [demo_item] ''bun'' = [Finite 3]"
    by (simp add: spec_deductions_def spec_item_deductions_def kv_get_def three demo_defs)
  have less: "js_sub (Finite 2) (Finite 3) = Finite (- 1)"
    by (simp add: js_eval)
  have bun: "kv_get (inventory demo_store) (inventory_key ''r1'' ''bun'') =
      Some \<lparr>inv_ingredient = ''bun'', inv_quantity = Finite 2, inv_unit = ''pc''\<rparr>"
    by (simp add: kv_get_def demo_defs)
  have beef: "kv_get (inventory demo_store) (inventory_key ''r1'' ''beef'') = None"
    by (simp add: kv_get_def demo_defs)
  have other: "\<forall>nm. ''stock'' \<noteq> inventory_key ''r1'' nm"
    by (simp add: inventory_key_def)
  note a = placeOrder_inventory [of demo_store "''r1''" 3 "[demo_item]" demo_uuid 5]
  have a1: "kv_get (inventory (snd (placeOrder demo_store ''r1'' 3 [demo_item] demo_uuid 5)))
     (inventory_key ''r1'' ''bun'') =
     Some \<lparr>inv_ingredient = ''bun'', inv_quantity = Finite (- 1), inv_unit = ''pc''\<rparr>"
    using a [THEN conjunct2, THEN conjunct1, rule_format, of "''bun''"]
    by (simp add: bun need less)
  have a2: "kv_get (inventory (snd (placeOrder demo_store ''r1'' 3 [demo_item] demo_uuid 5)))
     (inventory_key ''r1'' ''beef'') = None"
    using a [THEN conjunct2, THEN conjunct1, rule_format, of "''beef''"]
    by (simp add: beef)
  note a3 = a [THEN conjunct2, THEN conjunct2, rule_format, OF other [rule_format]]
  from need a1 a2 a3 show ?thesis by (intro conjI)
qed

subsection \<open>Order lifecycle\<close>

text \<open>
  C6, as stated, fails: with quantity 0 and an item index that is no position of the
  list, \<^verbatim>\<open>splice\<close> removes nothing, the order is written back as it was and the
  handler answers success. Here the order has one item and the index is 1.
\<close>

theorem updateLineItem_counterexample:
  "kv_get (orders demo_store) (order_key ''r1'' ''o1'') = Some demo_order \<and>
   length (o_items demo_order) = 1 \<and>
   fst (updateLineItem demo_store ''r1'' ''o1'' 1 0) = Inr () \<and>
   kv_get (orders (snd (updateLineItem demo_store ''r1'' ''o1'' 1 0))) (order_key ''r1'' ''o1'') =
     Some demo_order"
  by (simp add: updateLineItem_def kv_defs demo_store_def demo_order_def splice_one_def)

text \<open>
  C6, amended: \<open>updateLineItem\<close> fails with \<open>NotFound\<close> exactly when the order is
  missing, and then changes nothing. For an existing order and an item index that is a
  position of its item list, quantity 0 removes the item at that position (the items
  after it move down by one), so that the item count decreases by exactly one, and a
  nonzero quantity sets the quantity of the item at that position in place; both answer
  success.
\<close>

theorem updateLineItem_in_range:
  "(fst (updateLineItem s rid oid idx q) = Inl NotFound \<longleftrightarrow>
      kv_get (orders s) (order_key rid oid) = None) \<and>
   (kv_get (orders s) (order_key rid oid) = None \<longrightarrow>
      updateLineItem s rid oid idx q = (Inl NotFound, s)) \<and>
   (\<forall>order. kv_get (orders s) (order_key rid oid) = Some order \<and>
        0 \<le> idx \<and> idx < int (length (o_items order)) \<longrightarrow>
      (q = 0 \<longrightarrow>
         updateLineItem s rid oid idx q =
           (Inr (), s\<lparr>orders := (orders s)(order_key rid oid \<mapsto>
              order\<lparr>o_items := take (nat idx) (o_items order) @
                                 drop (Suc (nat idx)) (o_items order)\<rparr>)\<rparr>) \<and>
         length (take (nat idx) (o_items order) @ drop (Suc (nat idx)) (o_items order)) + 1 =
           length (o_items order)) \<and>
      (q \<noteq> 0 \<longrightarrow>
         updateLineItem s rid oid idx q =
           (Inr (), s\<lparr>orders := (orders s)(order_key rid oid \<mapsto>
              order\<lparr>o_items := (o_items order)
                 [nat idx := (o_items order ! nat idx)\<lparr>li_quantity := q\<rparr>]\<rparr>)\<rparr>)))"
  by (auto simp: updateLineItem_def kv_defs splice_one_def Let_def min_def max_def nat_add_distrib
        split: option.splits)

text \<open>
  On order \<open>o1\<close> of the demo restaurant: quantity 0 at index 0 leaves no item, quantity 5
  at index 0 sets the burger's quantity, and order \<open>o2\<close> is not found.
\<close>

theorem updateLineItem_in_range_witness:
  "kv_get (orders demo_store) (order_key ''r1'' ''o1'') = Some demo_order \<and>
   (0::int) \<le> 0 \<and> 0 < int (length (o_items demo_order)) \<and>
   updateLineItem demo_store ''r1'' ''o1'' 0 0 =
     (Inr (), demo_store\<lparr>orders := (orders demo_store)(order_key ''r1'' ''o1'' \<mapsto>
        demo_order\<lparr>o_items := []\<rparr>)\<rparr>) \<and>
   updateLineItem demo_store ''r1'' ''o1'' 0 5 =
     (Inr (), demo_store\<lparr>orders := (orders demo_store)(order_key ''r1'' ''o1'' \<mapsto>
        demo_order\<lparr>o_items := [demo_item\<lparr>li_quantity := 5\<rparr>]\<rparr>)\<rparr>) \<and>
   kv_get (orders demo_store) (order_key ''r1'' ''o2'') = None \<and>
   updateLineItem demo_store ''r1'' ''o2'' 0 0 = (Inl NotFound, demo_store)"
proof -
  have h: "kv_get (orders demo_store) (order_key ''r1'' ''o1'') = Some demo_order \<and>
      (0::int) \<le> 0 \<and> 0 < int (length (o_items demo_order))"
    by (simp add: kv_get_def demo_store_def demo_order_def)
  have items: "o_items demo_order = [demo_item]"
    by (simp add: demo_order_def)
  have h2: "kv_get (orders demo_store) (order_key ''r1'' ''o2'') = None"
    by (simp add: kv_get_def demo_store_def order_key_def)
  have a: "updateLineItem demo_store ''r1'' ''o1'' 0 0 =
     (Inr (), demo_store\<lparr>orders := (orders demo_store)(order_key ''r1'' ''o1'' \<mapsto>
        demo_order\<lparr>o_items := []\<rparr>)\<rparr>)"
    using updateLineItem_in_range [of demo_store "''r1''" "''o1''" 0 0,
        THEN conjunct2, THEN conjunct2, rule_format, OF h, THEN conjunct1]
    by (simp add: items)
  have b: "updateLineItem demo_store ''r1'' ''o1'' 0 5 =
     (Inr (), demo_store\<lparr>orders := (orders demo_store)(order_key ''r1'' ''o1'' \<mapsto>
        demo_order\<lparr>o_items := [demo_item\<lparr>li_quantity := 5\<rparr>]\<rparr>)\<rparr>)"
    using updateLineItem_in_range [of demo_store "''r1''" "''o1''" 0 5,
        THEN conjunct2, THEN conjunct2, rule_format, OF h, THEN conjunct2]
    by (simp add: items)
  note c = updateLineItem_in_range [of demo_store "''r1''" "''o2''" 0 0,
        THEN conjunct2, THEN conjunct1, rule_format, OF h2]
  from h a b h2 c show ?thesis by (intro conjI) simp_all
qed

text \<open>
  C7: \<open>markReady\<close> fails with \<open>NotFound\<close> exactly when no order is stored under that
  restaurant and order id, and then changes nothing. Otherwise it succeeds and stores
  the order with status \<open>ready\<close> (nothing else changes), and a second call on the
  resulting store succeeds as well and leaves that store as it is.
\<close>

theorem markReady_idempotent:
  "(fst (markReady s rid oid) = Inl NotFound \<longleftrightarrow> kv_get (orders s) (order_key rid oid) = None) \<and>
   (kv_get (orders s) (order_key rid oid) = None \<longrightarrow> snd (markReady s rid oid) = s) \<and>
   (\<forall>order. kv_get (orders s) (order_key rid oid) = Some order \<longrightarrow>
      markReady s rid oid =
        (Inr (), s\<lparr>orders := (orders s)(order_key rid oid \<mapsto> order\<lparr>o_status := ''ready''\<rparr>)\<rparr>) \<and>
      kv_get (orders (snd (markReady s rid oid))) (order_key rid oid) =
        Some (order\<lparr>o_status := ''ready''\<rparr>) \<and>
      markReady (snd (markReady s rid oid)) rid oid = (Inr (), snd (markReady s rid oid)))"
  by (auto simp: markReady_def kv_defs split: option.splits)

text \<open>Order \<open>o1\<close> of the demo restaurant is marked ready twice; order \<open>o2\<close> is not found.\<close>

theorem markReady_idempotent_witness:
  "kv_get (orders demo_store) (order_key ''r1'' ''o1'') = Some demo_order \<and>
   kv_get (orders (snd (markReady demo_store ''r1'' ''o1''))) (order_key ''r1'' ''o1'') =
     Some (demo_order\<lparr>o_status := ''ready''\<rparr>) \<and>
   markReady (snd (markReady demo_store ''r1'' ''o1'')) ''r1'' ''o1'' =
     (Inr (), snd (markReady demo_store ''r1'' ''o1'')) \<and>
   kv_get (orders demo_store) (order_key ''r1'' ''o2'') = None \<and>
   fst (markReady demo_store ''r1'' ''o2'') = Inl NotFound \<and>
   snd (markReady demo_store ''r1'' ''o2'') = demo_store"
proof -
  have h: "kv_get (orders demo_store) (order_key ''r1'' ''o1'') = Some demo_order"
    by (simp add: kv_get_def demo_store_def)
  have h2: "kv_get (orders demo_store) (order_key ''r1'' ''o2'') = None"
    by (simp add: kv_get_def demo_store_def order_key_def)
  note a = markReady_idempotent [of demo_store "''r1''" "''o1''",
      THEN conjunct2, THEN conjunct2, rule_format, OF h]
  note b = markReady_idempotent [of demo_store "''r1''" "''o2''"]
  note b1 = b [THEN conjunct1, THEN iffD2, OF h2]
  note b2 = b [THEN conjunct2, THEN conjunct1, rule_format, OF h2]
  from h a [THEN conjunct2, THEN conjunct1] a [THEN conjunct2, THEN conjunct2] h2 b1 b2
  show ?thesis by (intro conjI)
qed

text \<open>
  C9: \<open>completeOrder\<close> always succeeds and deletes the order record and nothing else.
  Every table record stays as it was, so a completed order's id that was in a table's
  order list is still there although it resolves to nothing, and \<open>listTableOrders\<close> for
  that table answers, without error, the orders of the remaining ids.
\<close>

theorem completeOrder_dangling:
  "fst (completeOrder s rid oid) = Inr () \<and>
   snd (completeOrder s rid oid) = s\<lparr>orders := (orders s)(order_key rid oid := None)\<rparr> \<and>
   tables (snd (completeOrder s rid oid)) = tables s \<and>
   kv_get (orders (snd (completeOrder s rid oid))) (order_key rid oid) = None \<and>
   (\<forall>n table. kv_get (tables s) (table_key rid n) = Some table \<longrightarrow>
      kv_get (tables (snd (completeOrder s rid oid))) (table_key rid n) = Some table \<and>
      listTableOrders (snd (completeOrder s rid oid)) rid n =
        Inr (collect_orders s rid (filter (\<lambda>i. i \<noteq> oid) (t_orders table))))"
  by (auto simp: completeOrder_def listTableOrders_def kv_defs
        collect_orders_deleted [where s = s and oid = oid])

text \<open>
  After completing order \<open>o1\<close> of the demo restaurant, table 3 still lists \<open>o1\<close> and
  \<open>listTableOrders\<close> answers the empty sequence.
\<close>

theorem completeOrder_dangling_witness:
  "kv_get (tables demo_store) (table_key ''r1'' 3) = Some \<lparr>t_number = 3, t_orders = [''o1'']\<rparr> \<and>
   listTableOrders demo_store ''r1'' 3 = Inr [demo_order] \<and>
   kv_get (tables (snd (completeOrder demo_store ''r1'' ''o1''))) (table_key ''r1'' 3) =
     Some \<lparr>t_number = 3, t_orders = [''o1'']\<rparr> \<and>
   kv_get (orders (snd (completeOrder demo_store ''r1'' ''o1''))) (order_key ''r1'' ''o1'') = None \<and>
   listTableOrders (snd (completeOrder demo_store ''r1'' ''o1'')) ''r1'' 3 = Inr []"
proof -
  have h3: "kv_get (tables demo_store) (table_key ''r1'' 3) =
      Some \<lparr>t_number = 3, t_orders = [''o1'']\<rparr>"
    by (simp add: kv_get_def demo_defs)
  have before: "listTableOrders demo_store ''r1'' 3 = Inr [demo_order]"
    by (simp add: listTableOrders_def kv_get_def demo_store_def table_key_def)
  note a = completeOrder_dangling [of demo_store "''r1''" "''o1''"]
  note a4 = a [THEN conjunct2, THEN conjunct2, THEN conjunct2, THEN conjunct1]
  note a5 = a [THEN conjunct2, THEN conjunct2, THEN conjunct2, THEN conjunct2, rule_format, OF h3]
  have a6: "listTableOrders (snd (completeOrder demo_store ''r1'' ''o1'')) ''r1'' 3 = Inr []"
    using a5 [THEN conjunct2] by simp
  from h3 before a5 [THEN conjunct1] a4 a6 show ?thesis by (intro conjI)
qed

subsection \<open>Inventory\<close>

text \<open>
  C8: for an ingredient with no inventory record, \<open>adjustInventory\<close> stores a record
  with the given unit whose quantity is 0 plus the delta (the delta itself when it is
  a double); a second adjustment adds its delta to that quantity and keeps the stored
  unit. The additions are those of doubles. So \<open>+100\<close> followed by \<open>-40\<close> on a fresh
  ingredient stores the quantity 60.
\<close>

theorem adjustInventory_fresh:
  "kv_get (inventory s) (inventory_key rid ing) = None \<Longrightarrow>
   fst (adjustInventory s rid ing d1 u1) = Inr () \<and>
   kv_get (inventory (snd (adjustInventory s rid ing d1 u1))) (inventory_key rid ing) =
     Some \<lparr>inv_ingredient = ing, inv_quantity = js_add (Finite 0) (Finite d1), inv_unit = u1\<rparr> \<and>
   (is_double d1 \<longrightarrow> js_add (Finite 0) (Finite d1) = Finite d1) \<and>
   fst (adjustInventory (snd (adjustInventory s rid ing d1 u1)) rid ing d2 u2) = Inr () \<and>
   kv_get (inventory (snd (adjustInventory (snd (adjustInventory s rid ing d1 u1)) rid ing d2 u2)))
     (inventory_key rid ing) =
     Some \<lparr>inv_ingredient = ing,
           inv_quantity = js_add (js_add (Finite 0) (Finite d1)) (Finite d2), inv_unit = u1\<rparr> \<and>
   kv_get (inventory (snd (adjustInventory (snd (adjustInventory s rid ing 100 u1)) rid ing (- 40) u2)))
     (inventory_key rid ing) =
     Some \<lparr>inv_ingredient = ing, inv_quantity = Finite 60, inv_unit = u1\<rparr>"
proof -
  assume fresh: "kv_get (inventory s) (inventory_key rid ing) = None"
  have sixty: "js_add (js_add (Finite 0) (Finite 100)) (Finite (- 40)) = Finite 60"
    by (simp add: js_eval)
  from fresh sixty show ?thesis
    by (simp add: adjustInventory_def kv_defs Let_def js_finite_double)
qed

text \<open>The demo restaurant has no stock record for beef: 100 g in, 40 g out, 60 g stored.\<close>

theorem adjustInventory_fresh_witness:
  "kv_get (inventory demo_store) (inventory_key ''r1'' ''beef'') = None \<and>
   is_double 100 \<and>
   kv_get (inventory (snd (adjustInventory demo_store ''r1'' ''beef'' 100 ''g'')))
     (inventory_key ''r1'' ''beef'') =
     Some \<lparr>inv_ingredient = ''beef'', inv_quantity = Finite 100, inv_unit = ''g''\<rparr> \<and>
   kv_get (inventory (snd (adjustInventory
       (snd (adjustInventory demo_store ''r1'' ''beef'' 100 ''g'')) ''r1'' ''beef'' (- 40) ''g'')))
     (inventory_key ''r1'' ''beef'') =
     Some \<lparr>inv_ingredient = ''beef'', inv_quantity = Finite 60, inv_unit = ''g''\<rparr>"
proof -
  have h: "kv_get (inventory demo_store) (inventory_key ''r1'' ''beef'') = None"
    by (simp add: kv_get_def demo_defs)
  have d: "is_double 100"
    by (simp add: is_double_def js_eval)
  note a = adjustInventory_fresh [OF h, of 100 "''g''" "- 40" "''g''"]
  have a2: "kv_get (inventory (snd (adjustInventory demo_store ''r1'' ''beef'' 100 ''g'')))
     (inventory_key ''r1'' ''beef'') =
     Some \<lparr>inv_ingredient = ''beef'', inv_quantity = Finite 100, inv_unit = ''g''\<rparr>"
    using a [THEN conjunct2, THEN conjunct1]
      a [THEN conjunct2, THEN conjunct2, THEN conjunct1, rule_format, OF d]
    by simp
  from h d a2 a [THEN conjunct2, THEN conjunct2, THEN conjunct2, THEN conjunct2, THEN conjunct2]
  show ?thesis by (intro conjI)
qed

subsection \<open>Registration\<close>

lemma demo_uuid_ok: "is_uuid demo_uuid"
  by (simp add: is_uuid_def demo_uuid_def hex_digit_def)

lemma is_uuid_length: "is_uuid u \<Longrightarrow> length u = 36"
  by (simp add: is_uuid_def)

text \<open>The second character of a UUID is a hexadecimal digit, that of \<open>email:\<close> is not.\<close>

lemma is_uuid_not_email: "is_uuid u \<Longrightarrow> u \<noteq> ''email:'' @ e"
proof
  assume u: "is_uuid u" and eq: "u = ''email:'' @ e"
  from u have "list_all hex_digit (take 8 u)" by (simp add: is_uuid_def)
  with eq show False by (simp add: hex_digit_def)
qed

lemma restaurant_key_not_email: "is_uuid u \<Longrightarrow> email_key e \<noteq> restaurant_key u"
  using is_uuid_not_email [of u e] by (auto simp: email_key_def restaurant_key_def)

lemma restaurant_key_inj: "restaurant_key a = restaurant_key b \<longleftrightarrow> a = b"
  by (simp add: restaurant_key_def)

text \<open>Two UUIDs have the same length, so the table keys of one do not extend the
  table prefix of another.\<close>

lemma table_prefix_uuid:
  assumes "is_uuid u" "is_uuid v" "prefix (table_prefix u) (table_key v i)"
  shows "u = v"
proof -
  from assms(3) have "prefix (u @ '':'') (v @ '':'' @ number_to_string i)"
    by (simp add: table_prefix_def table_key_def)
  then obtain r where "v @ '':'' @ number_to_string i = u @ '':'' @ r"
    by (auto simp: prefix_def)
  moreover have "length u = length v"
    using assms(1,2) by (simp add: is_uuid_length)
  ultimately show ?thesis by simp
qed

lemma table_key_prefix: "prefix (table_prefix rid) (table_key rid i)"
  by (simp add: table_key_def table_prefix_def)

lemma number_to_string_1_10:
  "number_to_string 1 = ''1''" "number_to_string 2 = ''2''" "number_to_string 3 = ''3''"
  "number_to_string 4 = ''4''" "number_to_string 5 = ''5''" "number_to_string 6 = ''6''"
  "number_to_string 7 = ''7''" "number_to_string 8 = ''8''" "number_to_string 9 = ''9''"
  "number_to_string 10 = ''10''"
  by (simp_all add: number_to_string_def nat_to_string.simps digit_char_def)

lemma table_key_1_10:
  "table_key rid 1 = table_prefix rid @ ''1''" "table_key rid 2 = table_prefix rid @ ''2''"
  "table_key rid 3 = table_prefix rid @ ''3''" "table_key rid 4 = table_prefix rid @ ''4''"
  "table_key rid 5 = table_prefix rid @ ''5''" "table_key rid 6 = table_prefix rid @ ''6''"
  "table_key rid 7 = table_prefix rid @ ''7''" "table_key rid 8 = table_prefix rid @ ''8''"
  "table_key rid 9 = table_prefix rid @ ''9''" "table_key rid 10 = table_prefix rid @ ''10''"
  by (simp_all add: table_key_def table_prefix_def number_to_string_1_10)

lemma int_1_10: "{1..10::int} = {1, 2, 3, 4, 5, 6, 7, 8, 9, 10}"
  by (simp only: set_upto [symmetric]) (simp add: upto_rec1 [of 1] del: set_upto)

text \<open>The provisioning loop, run from 1, is ten writes.\<close>

lemma init_tables_unrolled:
  "init_tables s rid 1 =
     s\<lparr>tables := (tables s)
        (table_key rid 1 \<mapsto> \<lparr>t_number = 1, t_orders = []\<rparr>,
         table_key rid 2 \<mapsto> \<lparr>t_number = 2, t_orders = []\<rparr>,
         table_key rid 3 \<mapsto> \<lparr>t_number = 3, t_orders = []\<rparr>,
         table_key rid 4 \<mapsto> \<lparr>t_number = 4, t_orders = []\<rparr>,
         table_key rid 5 \<mapsto> \<lparr>t_number = 5, t_orders = []\<rparr>,
         table_key rid 6 \<mapsto> \<lparr>t_number = 6, t_orders = []\<rparr>,
         table_key rid 7 \<mapsto> \<lparr>t_number = 7, t_orders = []\<rparr>,
         table_key rid 8 \<mapsto> \<lparr>t_number = 8, t_orders = []\<rparr>,
         table_key rid 9 \<mapsto> \<lparr>t_number = 9, t_orders = []\<rparr>,
         table_key rid 10 \<mapsto> \<lparr>t_number = 10, t_orders = []\<rparr>)\<rparr>"
  by (simp add: init_tables.simps kv_defs)

lemma init_tables_restaurants: "restaurants (init_tables s rid 1) = restaurants s"
  by (simp add: init_tables_unrolled)

lemma init_tables_new:
  "i \<in> {1..10} \<Longrightarrow>
   tables (init_tables s rid 1) (table_key rid i) = Some \<lparr>t_number = i, t_orders = []\<rparr>"
  unfolding int_1_10 by (auto simp: init_tables_unrolled table_key_1_10)

lemma init_tables_dom:
  "dom (tables (init_tables s rid 1)) = dom (tables s) \<union> table_key rid ` {1..10}"
  unfolding int_1_10 by (auto simp: init_tables_unrolled)

lemma table_key_inj_1_10: "inj_on (table_key rid) {1..10}"
  unfolding int_1_10 by (auto simp: inj_on_def table_key_1_10)

lemma signup_Inr:
  "signup s email password name token uuid now = (Inr rid, s') \<Longrightarrow>
   rid = uuid \<and> email \<noteq> [] \<and> password \<noteq> [] \<and> name \<noteq> [] \<and> token = ''PAID'' \<and>
   \<not> truthy_entry (kv_get (restaurants s) (email_key email)) \<and>
   s' = init_tables
        (s\<lparr>restaurants := (restaurants s)
            (restaurant_key uuid \<mapsto>
               Restaurant \<lparr>r_id = uuid, r_email = email, r_password = password, r_name = name,
                           r_paid = True, r_managerPassword = [], r_createdAt = now\<rparr>,
             email_key email \<mapsto> RestaurantId uuid)\<rparr>)
        uuid 1"
  by (auto simp: signup_def Let_def kv_defs split: if_splits)

lemma signup_Inl: "signup s email password name token uuid now = (Inl e, s') \<Longrightarrow> s' = s"
  by (auto simp: signup_def Let_def split: if_splits)

text \<open>
  C4, as stated, fails: the handler checks for missing fields before it checks the
  payment, and an empty string counts as missing. An empty payment token is not the
  sentinel, and the answer is the validation error, not \<open>PaymentRequired\<close>.
\<close>

theorem signup_counterexample:
  "fst (signup empty_store ''ana@example.com'' ''secret'' ''Cantina'' [] demo_uuid 0) =
     Inl ValidationError \<and>
   fst (signup empty_store ''ana@example.com'' ''secret'' ''Cantina'' [] demo_uuid 0) \<noteq>
     Inl PaymentRequired"
  by (simp add: signup_def)

text \<open>
  C4, amended: with email, password, name and payment token all non-empty, \<open>signup\<close>
  fails with \<open>PaymentRequired\<close> for every payment token other than \<open>PAID\<close>; with any of
  the four empty it fails with \<open>ValidationError\<close>; either failure leaves the store
  unchanged, so no restaurant record is created and the email index stays as it was.
  With the token \<open>PAID\<close>, non-empty email, password and name and no email index entry
  for the email, it succeeds with the minted id, and the email index and the restaurant
  record are stored.
\<close>

theorem signup_payment:
  "(email \<noteq> [] \<and> password \<noteq> [] \<and> name \<noteq> [] \<and> token \<noteq> [] \<and> token \<noteq> ''PAID'' \<longrightarrow>
      signup s email password name token uuid now = (Inl PaymentRequired, s)) \<and>
   (email = [] \<or> password = [] \<or> name = [] \<or> token = [] \<longrightarrow>
      signup s email password name token uuid now = (Inl ValidationError, s)) \<and>
   (email \<noteq> [] \<and> password \<noteq> [] \<and> name \<noteq> [] \<and>
    kv_get (restaurants s) (email_key email) = None \<longrightarrow>
      fst (signup s email password name ''PAID'' uuid now) = Inr uuid \<and>
      kv_get (restaurants (snd (signup s email password name ''PAID'' uuid now)))
        (email_key email) = Some (RestaurantId uuid) \<and>
      (is_uuid uuid \<longrightarrow>
         kv_get (restaurants (snd (signup s email password name ''PAID'' uuid now)))
           (restaurant_key uuid) =
         Some (Restaurant \<lparr>r_id = uuid, r_email = email, r_password = password,
                           r_name = name, r_paid = True, r_managerPassword = [],
                           r_createdAt = now\<rparr>)))"
  by (auto simp: signup_def Let_def kv_defs init_tables_restaurants
        dest: restaurant_key_not_email)

text \<open>
  On the empty store: the token \<open>FREE\<close> is refused with \<open>PaymentRequired\<close>, an empty
  password with \<open>ValidationError\<close>, and the token \<open>PAID\<close> registers the restaurant.
\<close>

theorem signup_payment_witness:
  "signup empty_store ''ana@example.com'' ''secret'' ''Cantina'' ''FREE'' demo_uuid 0 =
     (Inl PaymentRequired, empty_store) \<and>
   signup empty_store ''ana@example.com'' [] ''Cantina'' ''FREE'' demo_uuid 0 =
     (Inl ValidationError, empty_store) \<and>
   kv_get (restaurants empty_store) (email_key ''ana@example.com'') = None \<and>
   is_uuid demo_uuid \<and>
   fst (signup empty_store ''ana@example.com'' ''secret'' ''Cantina'' ''PAID'' demo_uuid 0) =
     Inr demo_uuid \<and>
   kv_get (restaurants
       (snd (signup empty_store ''ana@example.com'' ''secret'' ''Cantina'' ''PAID'' demo_uuid 0)))
     (restaurant_key demo_uuid) =
     Some (Restaurant \<lparr>r_id = demo_uuid, r_email = ''ana@example.com'', r_password = ''secret'',
                       r_name = ''Cantina'', r_paid = True, r_managerPassword = [],
                       r_createdAt = 0\<rparr>)"
proof -
  have h: "kv_get (restaurants empty_store) (email_key ''ana@example.com'') = None"
    by (simp add: kv_get_def empty_store_def)
  have a: "signup empty_store ''ana@example.com'' ''secret'' ''Cantina'' ''FREE'' demo_uuid 0 =
     (Inl PaymentRequired, empty_store)"
    using signup_payment [of "''ana@example.com''" "''secret''" "''Cantina''" "''FREE''"
        empty_store demo_uuid 0, THEN conjunct1]
    by simp
  have b: "signup empty_store ''ana@example.com'' [] ''Cantina'' ''FREE'' demo_uuid 0 =
     (Inl ValidationError, empty_store)"
    using signup_payment [of "''ana@example.com''" "[]" "''Cantina''" "''FREE''"
        empty_store demo_uuid 0, THEN conjunct2, THEN conjunct1]
    by simp
  have c: "fst (signup empty_store ''ana@example.com'' ''secret'' ''Cantina'' ''PAID'' demo_uuid 0) =
     Inr demo_uuid \<and>
    kv_get (restaurants
       (snd (signup empty_store ''ana@example.com'' ''secret'' ''Cantina'' ''PAID'' demo_uuid 0)))
     (restaurant_key demo_uuid) =
     Some (Restaurant \<lparr>r_id = demo_uuid, r_email = ''ana@example.com'', r_password = ''secret'',
                       r_name = ''Cantina'', r_paid = True, r_managerPassword = [],
                       r_createdAt = 0\<rparr>)"
    using signup_payment [of "''ana@example.com''" "''secret''" "''Cantina''" "''FREE''"
        empty_store demo_uuid 0, THEN conjunct2, THEN conjunct2] h demo_uuid_ok
    by simp
  from a b h demo_uuid_ok c show ?thesis by (intro conjI) simp_all
qed

subsection \<open>What the other handlers leave alone\<close>

text \<open>Only registration and \<open>setManagerPassword\<close> write under the prefix \<^verbatim>\<open>restaurant:\<close>.\<close>

lemma restaurants_frame:
  "restaurants (snd (placeOrder s rid tn items uuid now)) = restaurants s"
  "restaurants (snd (markReady s rid oid)) = restaurants s"
  "restaurants (snd (completeOrder s rid oid)) = restaurants s"
  "restaurants (snd (updateLineItem s rid oid idx q)) = restaurants s"
  "restaurants (snd (closeTable s rid tn subtotal today)) = restaurants s"
  "restaurants (snd (addProduct s rid name price category ings uuid)) = restaurants s"
  "restaurants (snd (deleteProduct s rid pid)) = restaurants s"
  "restaurants (snd (adjustInventory s rid ing d u)) = restaurants s"
  by (simp_all add: placeOrder_def markReady_def completeOrder_def updateLineItem_def
        closeTable_def addProduct_def deleteProduct_def adjustInventory_def Let_def
        delete_orders_eq split: option.splits)

text \<open>Only registration creates table keys; the other handlers rewrite existing ones.\<close>

lemma tables_dom_frame:
  "dom (tables (snd (setManagerPassword s rid pw))) = dom (tables s)"
  "dom (tables (snd (placeOrder s rid tn items uuid now))) = dom (tables s)"
  "dom (tables (snd (markReady s rid oid))) = dom (tables s)"
  "dom (tables (snd (completeOrder s rid oid))) = dom (tables s)"
  "dom (tables (snd (updateLineItem s rid oid idx q))) = dom (tables s)"
  "dom (tables (snd (closeTable s rid tn subtotal today))) = dom (tables s)"
  "dom (tables (snd (addProduct s rid name price category ings uuid))) = dom (tables s)"
  "dom (tables (snd (deleteProduct s rid pid))) = dom (tables s)"
  "dom (tables (snd (adjustInventory s rid ing d u))) = dom (tables s)"
  by (auto simp: setManagerPassword_def placeOrder_def markReady_def completeOrder_def
        updateLineItem_def closeTable_def addProduct_def deleteProduct_def adjustInventory_def
        Let_def delete_orders_eq kv_defs
        split: option.splits restaurant_entry.splits if_splits)

lemma signup_dom_tables:
  "dom (tables (snd (signup s email password name token uuid now))) =
     (if fst (signup s email password name token uuid now) = Inr uuid
      then dom (tables s) \<union> table_key uuid ` {1..10} else dom (tables s))"
  by (simp add: signup_def Let_def init_tables_dom)

text \<open>
  In every store that the server reaches from the empty one, every table key was
  written by a registration: it is one of the ten keys of a minted id.
\<close>

lemma serve_tables_minted:
  assumes "minted_uuid req"
    and "\<forall>k \<in> dom (tables s). \<exists>u i. is_uuid u \<and> i \<in> {1..10} \<and> k = table_key u i"
  shows "\<forall>k \<in> dom (tables (serve s req)). \<exists>u i. is_uuid u \<and> i \<in> {1..10} \<and> k = table_key u i"
proof (cases req)
  case (Signup email password name token uuid now)
  show ?thesis
  proof
    fix k
    assume "k \<in> dom (tables (serve s req))"
    then consider "k \<in> dom (tables s)" | "k \<in> table_key uuid ` {1..10}"
      by (auto simp: Signup signup_dom_tables split: if_splits)
    then show "\<exists>u i. is_uuid u \<and> i \<in> {1..10} \<and> k = table_key u i"
    proof cases
      case 1
      with assms(2) show ?thesis by blast
    next
      case 2
      moreover from assms(1) have "is_uuid uuid" by (simp add: Signup)
      ultimately show ?thesis by blast
    qed
  qed
qed (use assms in \<open>simp_all add: tables_dom_frame\<close>)

lemma serve_all_tables_minted:
  assumes "list_all minted_uuid reqs"
    and "\<forall>k \<in> dom (tables s). \<exists>u i. is_uuid u \<and> i \<in> {1..10} \<and> k = table_key u i"
  shows "\<forall>k \<in> dom (tables (serve_all s reqs)).
           \<exists>u i. is_uuid u \<and> i \<in> {1..10} \<and> k = table_key u i"
  using assms
proof (induction reqs arbitrary: s)
  case Nil
  then show ?case by simp
next
  case (Cons req reqs)
  from Cons.prems have "minted_uuid req" and rest: "list_all minted_uuid reqs"
    by simp_all
  from serve_tables_minted [OF this(1) Cons.prems(2)] Cons.IH [OF rest]
  show ?case by simp
qed

text \<open>
  A restaurant record with an empty manager password under a minted id stays so under
  every request that does not set the manager password of that id.
\<close>

lemma serve_keeps_empty_password:
  assumes uuid: "is_uuid rid"
    and r: "restaurants s (restaurant_key rid) = Some (Restaurant r)" "r_managerPassword r = []"
    and req: "\<not> sets_manager_password rid req"
  shows "\<exists>r'. restaurants (serve s req) (restaurant_key rid) = Some (Restaurant r') \<and>
              r_managerPassword r' = []"
proof (cases req)
  case (Signup email password name token uuid now)
  show ?thesis
    using r restaurant_key_not_email [OF uuid, of email]
    by (auto simp: Signup signup_def Let_def kv_defs init_tables_restaurants)
next
  case (SetManagerPassword rid' pw)
  with req have "rid' \<noteq> rid" by simp
  then show ?thesis
    using r
    by (auto simp: SetManagerPassword setManagerPassword_def kv_defs restaurant_key_inj
          split: option.splits restaurant_entry.splits)
qed (use r in \<open>simp_all add: restaurants_frame\<close>)

lemma serve_all_keeps_empty_password:
  assumes "is_uuid rid"
    and "restaurants s (restaurant_key rid) = Some (Restaurant r)" "r_managerPassword r = []"
    and "\<forall>req \<in> set reqs. \<not> sets_manager_password rid req"
  shows "\<exists>r'. restaurants (serve_all s reqs) (restaurant_key rid) = Some (Restaurant r') \<and>
              r_managerPassword r' = []"
  using assms
proof (induction reqs arbitrary: s r)
  case Nil
  then show ?case by simp
next
  case (Cons req reqs)
  from Cons.prems have "\<not> sets_manager_password rid req" by simp
  from serve_keeps_empty_password [OF Cons.prems(1-3) this]
  obtain r' where "restaurants (serve s req) (restaurant_key rid) = Some (Restaurant r')"
    "r_managerPassword r' = []" by blast
  from Cons.IH [OF Cons.prems(1) this] Cons.prems(4) show ?case by simp
qed

text \<open>
  C5: after every successful \<open>signup\<close>, each of the table keys 1 to 10 of the new
  restaurant holds the table of that number with an empty order list, and the ten keys
  are the only table keys the call adds. When no table was stored under the new id
  before, or when the store is one the server reaches from the empty store with minted
  UUIDs, the tables of the new restaurant (what \<open>listTables\<close> answers) are exactly these
  ten.
\<close>

theorem signup_tables:
  assumes ok: "signup s email password name token uuid now = (Inr rid, s')"
  shows "(\<forall>i \<in> {1..10}. kv_get (tables s') (table_key rid i) =
             Some \<lparr>t_number = i, t_orders = []\<rparr>) \<and>
         dom (tables s') = dom (tables s) \<union> table_key rid ` {1..10} \<and>
         card (table_key rid ` {1..10}) = 10 \<and>
         (listTables s rid = {} \<or>
          is_uuid uuid \<and> (\<exists>reqs. list_all minted_uuid reqs \<and> s = serve_all empty_store reqs) \<longrightarrow>
            {k \<in> dom (tables s'). prefix (table_prefix rid) k} = table_key rid ` {1..10} \<and>
            listTables s' rid = (\<lambda>i. \<lparr>t_number = i, t_orders = []\<rparr>) ` {1..10} \<and>
            card (listTables s' rid) = 10)"
proof (intro conjI ballI impI)
  from signup_Inr [OF ok] obtain s0 where
    rid: "rid = uuid" and s': "s' = init_tables s0 uuid 1" and s0: "tables s0 = tables s"
    by auto
  show new: "kv_get (tables s') (table_key rid i) = Some \<lparr>t_number = i, t_orders = []\<rparr>"
    if "i \<in> {1..10}" for i
    using that by (simp add: rid s' kv_get_def init_tables_new)
  show dom: "dom (tables s') = dom (tables s) \<union> table_key rid ` {1..10}"
    by (simp add: rid s' init_tables_dom s0)
  show "card (table_key rid ` {1..10}) = 10"
    by (simp add: card_image table_key_inj_1_10)
  assume hyp: "listTables s rid = {} \<or>
     is_uuid uuid \<and> (\<exists>reqs. list_all minted_uuid reqs \<and> s = serve_all empty_store reqs)"
  have old: "k \<in> table_key rid ` {1..10}"
    if k: "k \<in> dom (tables s)" and p: "prefix (table_prefix rid) k" for k
    using hyp
  proof
    assume "listTables s rid = {}"
    with k p show ?thesis by (auto simp: listTables_def kv_getByPrefix_def)
  next
    assume reach: "is_uuid uuid \<and>
      (\<exists>reqs. list_all minted_uuid reqs \<and> s = serve_all empty_store reqs)"
    then obtain reqs where reqs: "list_all minted_uuid reqs" "s = serve_all empty_store reqs"
      by blast
    have "\<forall>k \<in> dom (tables (serve_all empty_store reqs)).
            \<exists>u i. is_uuid u \<and> i \<in> {1..10} \<and> k = table_key u i"
      by (rule serve_all_tables_minted [OF reqs(1)]) (simp add: empty_store_def)
    with k reqs(2) obtain u i where u: "is_uuid u" "i \<in> {1..10}" "k = table_key u i"
      by blast
    from reach u(1) p have "rid = u"
      unfolding rid u(3) by (intro table_prefix_uuid) simp_all
    with u show ?thesis by blast
  qed
  show keys: "{k \<in> dom (tables s'). prefix (table_prefix rid) k} = table_key rid ` {1..10}"
    using old by (auto simp: dom table_key_prefix)
  have "listTables s' rid =
      (\<lambda>k. the (tables s' k)) ` {k \<in> dom (tables s'). prefix (table_prefix rid) k}"
    by (force simp: listTables_def kv_getByPrefix_def image_iff)
  also have "\<dots> = (\<lambda>k. the (tables s' k)) ` table_key rid ` {1..10}"
    by (simp only: keys)
  also have "\<dots> = (\<lambda>i. \<lparr>t_number = i, t_orders = []\<rparr>) ` {1..10}"
    unfolding image_image using new by (intro image_cong) (auto simp: kv_get_def)
  finally show lt: "listTables s' rid = (\<lambda>i. \<lparr>t_number = i, t_orders = []\<rparr>) ` {1..10}" .
  show "card (listTables s' rid) = 10"
    unfolding lt by (simp add: card_image inj_on_def)
qed

text \<open>
  Registering on the empty store, which is reached by no request at all, gives ten
  tables; table 10 is among them.
\<close>

theorem signup_tables_witness:
  "signup empty_store ''ana@example.com'' ''secret'' ''Cantina'' ''PAID'' demo_uuid 0 =
     (Inr demo_uuid,
      snd (signup empty_store ''ana@example.com'' ''secret'' ''Cantina'' ''PAID'' demo_uuid 0)) \<and>
   listTables empty_store demo_uuid = {} \<and>
   is_uuid demo_uuid \<and> list_all minted_uuid [] \<and> empty_store = serve_all empty_store [] \<and>
   kv_get (tables
       (snd (signup empty_store ''ana@example.com'' ''secret'' ''Cantina'' ''PAID'' demo_uuid 0)))
     (table_key demo_uuid 10) = Some \<lparr>t_number = 10, t_orders = []\<rparr> \<and>
   card (listTables
       (snd (signup empty_store ''ana@example.com'' ''secret'' ''Cantina'' ''PAID'' demo_uuid 0))
       demo_uuid) = 10"
proof -
  have ok: "signup empty_store ''ana@example.com'' ''secret'' ''Cantina'' ''PAID'' demo_uuid 0 =
     (Inr demo_uuid,
      snd (signup empty_store ''ana@example.com'' ''secret'' ''Cantina'' ''PAID'' demo_uuid 0))"
    by (simp add: signup_def Let_def kv_get_def empty_store_def)
  have fresh: "listTables empty_store demo_uuid = {}"
    by (simp add: listTables_def kv_getByPrefix_def empty_store_def)
  have reach: "list_all minted_uuid [] \<and> empty_store = serve_all empty_store []"
    by simp
  then have hyp: "listTables empty_store demo_uuid = {} \<or>
      is_uuid demo_uuid \<and>
      (\<exists>reqs. list_all minted_uuid reqs \<and> empty_store = serve_all empty_store reqs)"
    using demo_uuid_ok by blast
  note a = signup_tables [OF ok]
  have a1: "kv_get (tables
       (snd (signup empty_store ''ana@example.com'' ''secret'' ''Cantina'' ''PAID'' demo_uuid 0)))
     (table_key demo_uuid 10) = Some \<lparr>t_number = 10, t_orders = []\<rparr>"
    using a [THEN conjunct1, rule_format, of 10] by simp
  note a4 = a [THEN conjunct2, THEN conjunct2, THEN conjunct2, rule_format, OF hyp,
      THEN conjunct2, THEN conjunct2]
  from ok fresh demo_uuid_ok reach a1 a4 show ?thesis by (intro conjI) simp_all
qed

subsection \<open>The manager password\<close>

text \<open>
  C10: after a successful \<open>signup\<close> (the minted id being a UUID) and any sequence of
  later requests that contains no \<open>setManagerPassword\<close> for the new restaurant,
  \<open>verifyManagerPassword\<close> with the empty string succeeds and changes nothing: the
  stored manager password is still the empty string that registration wrote, and the
  check is string equality.
\<close>

theorem verifyManagerPassword_initially_empty:
  assumes ok: "signup s email password name token uuid now = (Inr rid, s')"
    and uuid: "is_uuid uuid"
    and reqs: "\<forall>req \<in> set reqs. \<not> sets_manager_password rid req"
  shows "verifyManagerPassword (serve_all s' reqs) rid [] = (Inr (), serve_all s' reqs)"
proof -
  from signup_Inr [OF ok] have rid: "rid = uuid" and
    s': "s' = init_tables
        (s\<lparr>restaurants := (restaurants s)
            (restaurant_key uuid \<mapsto>
               Restaurant \<lparr>r_id = uuid, r_email = email, r_password = password, r_name = name,
                           r_paid = True, r_managerPassword = [], r_createdAt = now\<rparr>,
             email_key email \<mapsto> RestaurantId uuid)\<rparr>)
        uuid 1"
    by simp_all
  have "restaurants s' (restaurant_key rid) =
      Some (Restaurant \<lparr>r_id = uuid, r_email = email, r_password = password, r_name = name,
                        r_paid = True, r_managerPassword = [], r_createdAt = now\<rparr>)"
    using restaurant_key_not_email [OF uuid, of email]
    by (simp add: rid s' init_tables_restaurants)
  from serve_all_keeps_empty_password [OF _ this _ reqs] uuid rid
  obtain r' where "restaurants (serve_all s' reqs) (restaurant_key rid) = Some (Restaurant r')"
    "r_managerPassword r' = []"
    by auto
  then show ?thesis
    by (simp add: verifyManagerPassword_def kv_get_def)
qed

text \<open>
  The restaurant registers, takes an order on table 3 and another restaurant sets its
  manager password: the empty string still passes the check.
\<close>

theorem verifyManagerPassword_initially_empty_witness:
  "signup empty_store ''ana@example.com'' ''secret'' ''Cantina'' ''PAID'' demo_uuid 0 =
     (Inr demo_uuid,
      snd (signup empty_store ''ana@example.com'' ''secret'' ''Cantina'' ''PAID'' demo_uuid 0)) \<and>
   is_uuid demo_uuid \<and>
   \<not> sets_manager_password demo_uuid (PlaceOrder demo_uuid 3 [demo_item] demo_uuid 5) \<and>
   \<not> sets_manager_password demo_uuid (SetManagerPassword ''r1'' ''1234'') \<and>
   verifyManagerPassword
     (serve_all
        (snd (signup empty_store ''ana@example.com'' ''secret'' ''Cantina'' ''PAID'' demo_uuid 0))
        [PlaceOrder demo_uuid 3 [demo_item] demo_uuid 5, SetManagerPassword ''r1'' ''1234''])
     demo_uuid [] =
   (Inr (),
    serve_all
      (snd (signup empty_store ''ana@example.com'' ''secret'' ''Cantina'' ''PAID'' demo_uuid 0))
      [PlaceOrder demo_uuid 3 [demo_item] demo_uuid 5, SetManagerPassword ''r1'' ''1234''])"
proof -
  have ok: "signup empty_store ''ana@example.com'' ''secret'' ''Cantina'' ''PAID'' demo_uuid 0 =
     (Inr demo_uuid,
      snd (signup empty_store ''ana@example.com'' ''secret'' ''Cantina'' ''PAID'' demo_uuid 0))"
    by (simp add: signup_def Let_def kv_get_def empty_store_def)
  have r1: "\<not> sets_manager_password demo_uuid (PlaceOrder demo_uuid 3 [demo_item] demo_uuid 5)"
    by simp
  have r2: "\<not> sets_manager_password demo_uuid (SetManagerPassword ''r1'' ''1234'')"
    by (simp add: demo_uuid_def)
  from r1 r2 have reqs: "\<forall>req \<in> set [PlaceOrder demo_uuid 3 [demo_item] demo_uuid 5,
      SetManagerPassword ''r1'' ''1234'']. \<not> sets_manager_password demo_uuid req"
    by simp
  note a = verifyManagerPassword_initially_empty [OF ok demo_uuid_ok reqs]
  from ok demo_uuid_ok r1 r2 a show ?thesis by (intro conjI)
qed

end
